theory Spec2Isabelle
  imports Main "HOL-Library.Sublist"
begin

section \<open>JavaScript values\<close>

text \<open>
  Request bodies and upstream responses are whatever \<^verbatim>\<open>JSON.parse\<close> yields, and the
  handlers read them with untyped property accesses, so the model keeps them untyped.
  Strings are byte lists (the UTF-8 encoding of the text). A number is carried as the
  string that ECMAScript's \<^verbatim>\<open>Number::toString\<close> gives it (\<^verbatim>\<open>0\<close>, \<^verbatim>\<open>-5\<close>, \<^verbatim>\<open>1.5\<close>, \<^verbatim>\<open>1e+21\<close>,
  \<^verbatim>\<open>Infinity\<close>; both zeros are \<^verbatim>\<open>0\<close>): the code only tests a number for truthiness,
  compares it with zero, interpolates it into a string or serialises it, and each of
  these is a function of that rendering. An object is the list of its own properties
  in the order the engine enumerates them; a key is looked up with \<open>map_of\<close>.
\<close>

datatype js =
    JUndefined
  | JNull
  | JBool bool
  | JNum string
  | JStr string
  | JArr "js list"
  | JObj "(string \<times> js) list"

datatype exn = TypeError string | SyntaxError string | Error string

type_synonym 'a outcome = "exn + 'a"

definition nullish :: "js \<Rightarrow> bool" where
  "nullish v = (v = JUndefined \<or> v = JNull)"

text \<open>\<^verbatim>\<open>!v\<close> is \<open>\<not> truthy v\<close>: the falsy values are undefined, null, false, zero, NaN
  and the empty string.\<close>

fun truthy :: "js \<Rightarrow> bool" where
  "truthy JUndefined = False"
| "truthy JNull = False"
| "truthy (JBool b) = b"
| "truthy (JNum s) = (s \<noteq> ''0'' \<and> s \<noteq> ''NaN'')"
| "truthy (JStr s) = (s \<noteq> [])"
| "truthy (JArr xs) = True"
| "truthy (JObj kvs) = True"

fun join_comma :: "string list \<Rightarrow> string" where
  "join_comma [] = []"
| "join_comma [s] = s"
| "join_comma (s # t # ss) = s @ '','' @ join_comma (t # ss)"

text \<open>
  ToString, the conversion behind \<^verbatim>\<open>`${v}`\<close>, \<^verbatim>\<open>new URLSearchParams\<close> and \<^verbatim>\<open>new Error\<close>.
  An array joins the strings of its elements with commas, writing nothing for null and
  undefined elements. A plain object is \<^verbatim>\<open>[object Object]\<close>, by the \<^verbatim>\<open>toString\<close> it inherits;
  but an object with a \<^verbatim>\<open>toString\<close> key of its own hides that method behind a value
  that cannot be called (nothing \<^verbatim>\<open>JSON.parse\<close> yields can), \<^verbatim>\<open>valueOf\<close> gives back the
  object, and the conversion throws a TypeError. So does the conversion of an array
  that holds such an object.
\<close>

fun js_to_string :: "js \<Rightarrow> string outcome"
  and js_join_elems :: "js list \<Rightarrow> string list outcome" where
  "js_to_string JUndefined = Inr ''undefined''"
| "js_to_string JNull = Inr ''null''"
| "js_to_string (JBool b) = Inr (if b then ''true'' else ''false'')"
| "js_to_string (JNum s) = Inr s"
| "js_to_string (JStr s) = Inr s"
| "js_to_string (JArr xs) =
     (case js_join_elems xs of Inl e \<Rightarrow> Inl e | Inr ss \<Rightarrow> Inr (join_comma ss))"
| "js_to_string (JObj kvs) =
     (case map_of kvs ''toString'' of
        None \<Rightarrow> Inr ''[object Object]''
      | Some v \<Rightarrow> Inl (TypeError ''Cannot convert object to primitive value''))"
| "js_join_elems [] = Inr []"
| "js_join_elems (x # xs) =
     (case (if nullish x then Inr [] else js_to_string x) of
        Inl e \<Rightarrow> Inl e
      | Inr s \<Rightarrow> (case js_join_elems xs of Inl e \<Rightarrow> Inl e | Inr ss \<Rightarrow> Inr (s # ss)))"

text \<open>A template literal with one substitution: \<open>f\<close> is its text as a function of the
  string of \<open>v\<close>.\<close>

definition interpolating :: "js \<Rightarrow> (string \<Rightarrow> 'a) \<Rightarrow> 'a outcome" where
  "interpolating v f = (case js_to_string v of Inl e \<Rightarrow> Inl e | Inr s \<Rightarrow> Inr (f s))"

definition decimal_digit :: "nat \<Rightarrow> char" where
  "decimal_digit d = ''0123456789'' ! d"

fun decimal :: "nat \<Rightarrow> string" where
  "decimal n = (if n < 10 then [decimal_digit n] else decimal (n div 10) @ [decimal_digit (n mod 10)])"

declare decimal.simps [simp del]

text \<open>
  \<^verbatim>\<open>v.k\<close> for the keys the code reads (\<^verbatim>\<open>error\<close>, \<^verbatim>\<open>message\<close>, \<^verbatim>\<open>id\<close>, \<^verbatim>\<open>data\<close>, \<^verbatim>\<open>length\<close>, ...).
  Reading a property of null or undefined throws a TypeError. A primitive or an array
  has none of these keys, except \<^verbatim>\<open>length\<close> on a string (counted here in bytes: the
  code only asks whether it is positive) and on an array.
\<close>

fun get_prop :: "js \<Rightarrow> string \<Rightarrow> js outcome" where
  "get_prop JUndefined k =
     Inl (TypeError (''Cannot read properties of undefined (reading '' @ [CHR 0x27] @ k @ [CHR 0x27] @ '')''))"
| "get_prop JNull k =
     Inl (TypeError (''Cannot read properties of null (reading '' @ [CHR 0x27] @ k @ [CHR 0x27] @ '')''))"
| "get_prop (JObj kvs) k = Inr (case map_of kvs k of None \<Rightarrow> JUndefined | Some v \<Rightarrow> v)"
| "get_prop (JArr xs) k = Inr (if k = ''length'' then JNum (decimal (length xs)) else JUndefined)"
| "get_prop (JStr s) k = Inr (if k = ''length'' then JNum (decimal (length s)) else JUndefined)"
| "get_prop (JBool b) k = Inr JUndefined"
| "get_prop (JNum s) k = Inr JUndefined"

text \<open>\<^verbatim>\<open>v[i]\<close> with a numeric index.\<close>

fun get_index :: "js \<Rightarrow> nat \<Rightarrow> js outcome" where
  "get_index JUndefined i =
     Inl (TypeError (''Cannot read properties of undefined (reading '' @ [CHR 0x27] @ decimal i @ [CHR 0x27] @ '')''))"
| "get_index JNull i =
     Inl (TypeError (''Cannot read properties of null (reading '' @ [CHR 0x27] @ decimal i @ [CHR 0x27] @ '')''))"
| "get_index (JArr xs) i = Inr (if i < length xs then xs ! i else JUndefined)"
| "get_index (JObj kvs) i = Inr (case map_of kvs (decimal i) of None \<Rightarrow> JUndefined | Some v \<Rightarrow> v)"
| "get_index (JStr s) i = Inr (if i < length s then JStr [s ! i] else JUndefined)"
| "get_index (JBool b) i = Inr JUndefined"
| "get_index (JNum s) i = Inr JUndefined"

text \<open>\<^verbatim>\<open>v?.k\<close> and \<^verbatim>\<open>v ?? d\<close>.\<close>

definition opt_chain :: "js \<Rightarrow> string \<Rightarrow> js outcome" where
  "opt_chain v k = (if nullish v then Inr JUndefined else get_prop v k)"

definition nullish_or :: "js \<Rightarrow> js \<Rightarrow> js" where
  "nullish_or v d = (if nullish v then d else v)"

text \<open>
  \<^verbatim>\<open>v > 0\<close>. Undefined is NaN and null is zero; a boolean is 0 or 1; a number is read
  off its rendering. A string is converted by the engine's StringToNumber, which is no
  part of this repository: whether the result is positive is the parameter
  \<open>str_pos\<close>. An array or an object is first converted to a primitive, which is its
  string (\<^verbatim>\<open>valueOf\<close> gives back the object itself) and throws where ToString throws;
  the string of a plain object, \<^verbatim>\<open>[object Object]\<close>, is NaN.
\<close>

definition num_positive :: "string \<Rightarrow> bool" where
  "num_positive s = (s \<noteq> ''0'' \<and> s \<noteq> ''NaN'' \<and> take 1 s \<noteq> ''-'')"

fun js_gt_zero :: "(string \<Rightarrow> bool) \<Rightarrow> js \<Rightarrow> bool outcome" where
  "js_gt_zero str_pos JUndefined = Inr False"
| "js_gt_zero str_pos JNull = Inr False"
| "js_gt_zero str_pos (JBool b) = Inr b"
| "js_gt_zero str_pos (JNum s) = Inr (num_positive s)"
| "js_gt_zero str_pos (JStr s) = Inr (str_pos s)"
| "js_gt_zero str_pos (JArr xs) =
     (case js_to_string (JArr xs) of Inl e \<Rightarrow> Inl e | Inr s \<Rightarrow> Inr (str_pos s))"
| "js_gt_zero str_pos (JObj kvs) =
     (case js_to_string (JObj kvs) of Inl e \<Rightarrow> Inl e | Inr s \<Rightarrow> Inr False)"

subsection \<open>\<^verbatim>\<open>JSON.stringify\<close>\<close>

definition hex_lower :: "nat \<Rightarrow> char" where
  "hex_lower d = ''0123456789abcdef'' ! d"

definition quote_char :: "char \<Rightarrow> string" where
  \<open>quote_char c =
     (if c = CHR 0x22 then [CHR 0x5C, CHR 0x22]
      else if c = CHR 0x5C then [CHR 0x5C, CHR 0x5C]
      else if c = CHR 0x08 then [CHR 0x5C, CHR ''b'']
      else if c = CHR 0x0C then [CHR 0x5C, CHR ''f'']
      else if c = CHR 0x0A then [CHR 0x5C, CHR ''n'']
      else if c = CHR 0x0D then [CHR 0x5C, CHR ''r'']
      else if c = CHR 0x09 then [CHR 0x5C, CHR ''t'']
      else if of_char c < (32::nat)
        then [CHR 0x5C, CHR ''u'', CHR ''0'', CHR ''0'',
              hex_lower (of_char c div 16), hex_lower (of_char c mod 16)]
      else [c])\<close>

definition quote :: "string \<Rightarrow> string" where
  \<open>quote s = [CHR 0x22] @ concat (map quote_char s) @ [CHR 0x22]\<close>

text \<open>A property whose value is undefined is left out of an object; an undefined
  array element is written \<^verbatim>\<open>null\<close>, and so is a number that is not finite.\<close>

fun stringify :: "js \<Rightarrow> string"
  and stringify_elems :: "js list \<Rightarrow> string list"
  and stringify_members :: "(string \<times> js) list \<Rightarrow> string list" where
  "stringify JUndefined = ''null''"
| "stringify JNull = ''null''"
| "stringify (JBool b) = (if b then ''true'' else ''false'')"
| "stringify (JNum s) = (if s \<in> {''Infinity'', ''-Infinity'', ''NaN''} then ''null'' else s)"
| "stringify (JStr s) = quote s"
| "stringify (JArr xs) = ''['' @ join_comma (stringify_elems xs) @ '']''"
| "stringify (JObj kvs) = ''{'' @ join_comma (stringify_members kvs) @ ''}''"
| "stringify_elems [] = []"
| "stringify_elems (x # xs) = stringify x # stringify_elems xs"
| "stringify_members [] = []"
| "stringify_members ((k, v) # kvs) =
     (if v = JUndefined then stringify_members kvs
      else (quote k @ '':'' @ stringify v) # stringify_members kvs)"

definition JSON_stringify :: "js \<Rightarrow> string" where
  "JSON_stringify data = stringify data"

section \<open>Requests, responses and the upstream\<close>

text \<open>
  A request is its method and the outcome of \<^verbatim>\<open>await req.json()\<close>: \<open>None\<close> when the
  body is not JSON text. A response is what \<^verbatim>\<open>new Response(body, {status, headers})\<close>
  was given.
\<close>

record request =
  req_method :: string
  req_json :: "js option"

record response =
  status :: nat
  headers :: "(string \<times> string) list"
  body_text :: "string option"

text \<open>
  \<^verbatim>\<open>fetch(url, init)\<close> is the only effect of a handler. The upstream is a function from
  the request sent to what comes back: \<open>Inl\<close> when \<^verbatim>\<open>fetch\<close> rejects (a transport
  failure), otherwise the \<^verbatim>\<open>ok\<close> flag and the outcome of \<^verbatim>\<open>res.json()\<close>, which
  rejects when the body is not JSON. The requests of one run are pairwise different,
  so a function loses nothing. A computation returns its outcome and the list of the
  requests it sent, in order. \<^verbatim>\<open>console.error\<close> is not modelled.
\<close>

record fetch_init =
  url :: string
  init_method :: string
  init_headers :: "(string \<times> string) list"
  init_body :: "string option"

record fetch_response =
  ok :: bool
  res_json :: "js outcome"

type_synonym upstream = "fetch_init \<Rightarrow> fetch_response outcome"

type_synonym 'a io = "'a outcome \<times> fetch_init list"

definition io_return :: "'a \<Rightarrow> 'a io" where
  "io_return x = (Inr x, [])"

definition io_eval :: "'a outcome \<Rightarrow> 'a io" where
  "io_eval x = (x, [])"

definition io_fetch :: "upstream \<Rightarrow> fetch_init \<Rightarrow> fetch_response io" where
  "io_fetch fetch r = (fetch r, [r])"

definition io_bind :: "'a io \<Rightarrow> ('a \<Rightarrow> 'b io) \<Rightarrow> 'b io" where
  "io_bind m f =
     (case m of
        (Inl e, sent) \<Rightarrow> (Inl e, sent)
      | (Inr x, sent) \<Rightarrow> (case f x of (r, sent') \<Rightarrow> (r, sent @ sent')))"

definition io_catch :: "'a io \<Rightarrow> (exn \<Rightarrow> 'a io) \<Rightarrow> 'a io" where
  "io_catch m h =
     (case m of
        (Inl e, sent) \<Rightarrow> (case h e of (r, sent') \<Rightarrow> (r, sent @ sent'))
      | (Inr x, sent) \<Rightarrow> (Inr x, sent))"

definition CORS_HEADERS :: "(string \<times> string) list" where
  "CORS_HEADERS =
     [(''Access-Control-Allow-Origin'', ''*''),
      (''Access-Control-Allow-Headers'', ''authorization, x-client-info, apikey, content-type''),
      (''Access-Control-Allow-Methods'', ''POST, OPTIONS'')]"

definition json :: "js \<Rightarrow> nat \<Rightarrow> response" where
  "json data st =
     \<lparr>status = st,
      headers = CORS_HEADERS @ [(''Content-Type'', ''application/json'')],
      body_text = Some (JSON_stringify data)\<rparr>"

definition preflight :: response where
  "preflight = \<lparr>status = 204, headers = CORS_HEADERS, body_text = None\<rparr>"

text \<open>\<^verbatim>\<open>Deno.env.get(name) ?? ''\<close>\<close>

definition env_or_empty :: "string option \<Rightarrow> string" where
  "env_or_empty v = (case v of None \<Rightarrow> [] | Some s \<Rightarrow> s)"

subsection \<open>\<^verbatim>\<open>new URLSearchParams(params).toString()\<close>\<close>

definition hex_upper :: "nat \<Rightarrow> char" where
  "hex_upper d = ''0123456789ABCDEF'' ! d"

definition form_byte :: "char \<Rightarrow> string" where
  "form_byte c =
     (if c \<in> set ''ABCDEFGHIJKLMNOPQRSTUVWXYZabcdefghijklmnopqrstuvwxyz0123456789*-._'' then [c]
      else if c = CHR '' '' then ''+''
      else [CHR ''%'', hex_upper (of_char c div 16), hex_upper (of_char c mod 16)])"

definition form_component :: "string \<Rightarrow> string" where
  "form_component s = concat (map form_byte s)"

fun join_amp :: "string list \<Rightarrow> string" where
  "join_amp [] = []"
| "join_amp [s] = s"
| "join_amp (s # t # ss) = s @ ''&'' @ join_amp (t # ss)"

text \<open>The constructor converts the values of the pairs to strings, in order, and throws
  where ToString throws; \<^verbatim>\<open>toString\<close> then serialises the pairs.\<close>

fun form_pairs :: "(string \<times> js) list \<Rightarrow> string list outcome" where
  "form_pairs [] = Inr []"
| "form_pairs ((k, v) # params) =
     (case js_to_string v of
        Inl e \<Rightarrow> Inl e
      | Inr s \<Rightarrow>
          (case form_pairs params of
             Inl e \<Rightarrow> Inl e
           | Inr rest \<Rightarrow> Inr ((form_component k @ ''='' @ form_component s) # rest)))"

definition URLSearchParams_toString :: "(string \<times> js) list \<Rightarrow> string outcome" where
  "URLSearchParams_toString params =
     (case form_pairs params of Inl e \<Rightarrow> Inl e | Inr pairs \<Rightarrow> Inr (join_amp pairs))"

subsection \<open>The Stripe client\<close>

definition stripeGet :: "upstream \<Rightarrow> string \<Rightarrow> string \<Rightarrow> js io" where
  "stripeGet fetch STRIPE_SECRET_KEY path =
     io_bind (io_fetch fetch
        \<lparr>url = ''https://api.stripe.com/v1/'' @ path,
         init_method = ''GET'',
         init_headers = [(''Authorization'', ''Bearer '' @ STRIPE_SECRET_KEY)],
         init_body = None\<rparr>)
       (\<lambda>res. io_eval (res_json res))"

text \<open>The body is built before \<^verbatim>\<open>fetch\<close> is called: when the parameters have no string
  form, \<^verbatim>\<open>stripePost\<close> throws and nothing is sent.\<close>

definition stripePost :: "upstream \<Rightarrow> string \<Rightarrow> string \<Rightarrow> (string \<times> js) list \<Rightarrow> js io" where
  "stripePost fetch STRIPE_SECRET_KEY path params =
     io_bind (io_eval (URLSearchParams_toString params)) (\<lambda>body.
     io_bind (io_fetch fetch
        \<lparr>url = ''https://api.stripe.com/v1/'' @ path,
         init_method = ''POST'',
         init_headers = [(''Authorization'', ''Bearer '' @ STRIPE_SECRET_KEY),
                         (''Content-Type'', ''application/x-www-form-urlencoded'')],
         init_body = Some body\<rparr>)
       (\<lambda>res. io_eval (res_json res)))"

section \<open>create-subscription\<close>

definition create_subscription_try ::
  "(string \<Rightarrow> bool) \<Rightarrow> upstream \<Rightarrow> string \<Rightarrow> js \<Rightarrow> js \<Rightarrow> response io" where
  "create_subscription_try str_pos fetch STRIPE_SECRET_KEY customerId priceId =
     io_bind (io_eval (interpolating customerId (\<lambda>id. ''customers/'' @ id))) (\<lambda>customer_path.
     io_bind (stripeGet fetch STRIPE_SECRET_KEY customer_path) (\<lambda>customer.
     io_bind (io_eval (get_prop customer ''error'')) (\<lambda>customer_error.
     if truthy customer_error then
       io_bind (io_eval (get_prop customer_error ''message'')) (\<lambda>message.
       io_return (json (JObj [(''error'', nullish_or message (JStr ''Customer not found''))]) 404))
     else
     io_bind (io_eval (get_prop customer ''invoice_settings'')) (\<lambda>invoice_settings.
     io_bind (io_eval (opt_chain invoice_settings ''default_payment_method'')) (\<lambda>default_payment_method.
     io_bind
       (if \<not> truthy default_payment_method then
          io_bind (io_eval (interpolating customerId
                     (\<lambda>id. ''payment_methods?customer='' @ id @ ''&type=card''))) (\<lambda>listing_path.
          io_bind (stripeGet fetch STRIPE_SECRET_KEY listing_path) (\<lambda>pms.
          io_bind (io_eval (get_prop pms ''data'')) (\<lambda>data.
          io_bind (io_eval (opt_chain data ''length'')) (\<lambda>len.
          io_bind (io_eval (js_gt_zero str_pos len)) (\<lambda>positive.
          if positive then
            io_bind (io_eval (get_index data 0)) (\<lambda>first.
            io_eval (get_prop first ''id''))
          else io_return default_payment_method)))))
        else io_return default_payment_method) (\<lambda>paymentMethodId.
     if \<not> truthy paymentMethodId then
       io_return (json (JObj [(''error'',
         JStr ''No payment method found for this customer. Please update your payment method first.'')]) 400)
     else
     io_bind (stripePost fetch STRIPE_SECRET_KEY ''subscriptions''
                [(''customer'', customerId),
                 (''items[0][price]'', priceId),
                 (''default_payment_method'', paymentMethodId),
                 (''payment_behavior'', JStr ''default_incomplete''),
                 (''expand[]'', JStr ''latest_invoice.payment_intent'')]) (\<lambda>subscription.
     io_bind (io_eval (get_prop subscription ''error'')) (\<lambda>subscription_error.
     if truthy subscription_error then
       io_bind (io_eval (get_prop subscription_error ''message'')) (\<lambda>message.
       io_return (json (JObj [(''error'', nullish_or message (JStr ''Failed to create subscription''))]) 502))
     else
     io_bind (io_eval (get_prop subscription ''id'')) (\<lambda>subscription_id.
     io_bind (io_eval (get_prop subscription ''status'')) (\<lambda>subscription_status.
     io_return (json (JObj [(''subscriptionId'', subscription_id),
                            (''status'', subscription_status)]) 200)))))))))))"

definition internal_server_error :: "exn \<Rightarrow> response io" where
  "internal_server_error err = io_return (json (JObj [(''error'', JStr ''Internal server error'')]) 500)"

definition create_subscription ::
  "(string \<Rightarrow> bool) \<Rightarrow> string option \<Rightarrow> upstream \<Rightarrow> request \<Rightarrow> response io" where
  "create_subscription str_pos env fetch req =
     (let STRIPE_SECRET_KEY = env_or_empty env in
      if req_method req = ''OPTIONS'' then io_return preflight
      else if req_method req \<noteq> ''POST'' then
        io_return (json (JObj [(''error'', JStr ''Method not allowed'')]) 405)
      else if STRIPE_SECRET_KEY = [] then
        io_return (json (JObj [(''error'', JStr ''Server configuration error'')]) 500)
      else
        case req_json req of
          None \<Rightarrow> io_return (json (JObj [(''error'', JStr ''Invalid JSON body'')]) 400)
        | Some body \<Rightarrow>
            io_bind (io_eval (get_prop body ''customerId'')) (\<lambda>customerId.
            io_bind (io_eval (get_prop body ''priceId'')) (\<lambda>priceId.
            if \<not> truthy customerId \<or> \<not> truthy priceId then
              io_return (json (JObj [(''error'', JStr ''customerId and priceId are required'')]) 400)
            else
              io_catch (create_subscription_try str_pos fetch STRIPE_SECRET_KEY customerId priceId)
                internal_server_error)))"

section \<open>create-setup-intent\<close>

definition create_setup_intent_try :: "upstream \<Rightarrow> string \<Rightarrow> js \<Rightarrow> js \<Rightarrow> response io" where
  "create_setup_intent_try fetch STRIPE_SECRET_KEY email userId =
     io_bind (stripePost fetch STRIPE_SECRET_KEY ''customers''
                [(''email'', email),
                 (''metadata[supabase_uid]'', userId)]) (\<lambda>customer.
     io_bind (io_eval (get_prop customer ''error'')) (\<lambda>customer_error.
     if truthy customer_error then
       io_bind (io_eval (get_prop customer_error ''message'')) (\<lambda>message.
       io_return (json (JObj [(''error'', nullish_or message (JStr ''Failed to create customer''))]) 502))
     else
     io_bind (io_eval (get_prop customer ''id'')) (\<lambda>customer_id.
     io_bind (stripePost fetch STRIPE_SECRET_KEY ''setup_intents''
                [(''customer'', customer_id),
                 (''usage'', JStr ''off_session''),
                 (''automatic_payment_methods[enabled]'', JStr ''true'')]) (\<lambda>setupIntent.
     io_bind (io_eval (get_prop setupIntent ''error'')) (\<lambda>setupIntent_error.
     if truthy setupIntent_error then
       io_bind (io_eval (get_prop setupIntent_error ''message'')) (\<lambda>message.
       io_return (json (JObj [(''error'', nullish_or message (JStr ''Failed to create setup intent''))]) 502))
     else
     io_bind (io_eval (get_prop setupIntent ''client_secret'')) (\<lambda>client_secret.
     io_bind (io_eval (get_prop customer ''id'')) (\<lambda>customer_id'.
     io_return (json (JObj [(''clientSecret'', client_secret),
                            (''customerId'', customer_id')]) 200))))))))"

definition create_setup_intent :: "string option \<Rightarrow> upstream \<Rightarrow> request \<Rightarrow> response io" where
  "create_setup_intent env fetch req =
     (let STRIPE_SECRET_KEY = env_or_empty env in
      if req_method req = ''OPTIONS'' then io_return preflight
      else if req_method req \<noteq> ''POST'' then
        io_return (json (JObj [(''error'', JStr ''Method not allowed'')]) 405)
      else if STRIPE_SECRET_KEY = [] then
        io_return (json (JObj [(''error'', JStr ''Server configuration error'')]) 500)
      else
        case req_json req of
          None \<Rightarrow> io_return (json (JObj [(''error'', JStr ''Invalid JSON body'')]) 400)
        | Some body \<Rightarrow>
            io_bind (io_eval (get_prop body ''email'')) (\<lambda>email.
            io_bind (io_eval (get_prop body ''userId'')) (\<lambda>userId.
            if \<not> truthy email \<or> \<not> truthy userId then
              io_return (json (JObj [(''error'', JStr ''email and userId are required'')]) 400)
            else
              io_catch (create_setup_intent_try fetch STRIPE_SECRET_KEY email userId)
                internal_server_error)))"

section \<open>create-portal-session\<close>

definition create_portal_session_try :: "upstream \<Rightarrow> string \<Rightarrow> js \<Rightarrow> js \<Rightarrow> response io" where
  "create_portal_session_try fetch STRIPE_SECRET_KEY customerId returnUrl =
     io_bind (stripePost fetch STRIPE_SECRET_KEY ''billing_portal/sessions''
                [(''customer'', customerId),
                 (''return_url'', returnUrl)]) (\<lambda>session.
     io_bind (io_eval (get_prop session ''error'')) (\<lambda>session_error.
     if truthy session_error then
       io_bind (io_eval (get_prop session_error ''message'')) (\<lambda>message.
       io_return (json (JObj [(''error'', nullish_or message (JStr ''Failed to create portal session''))]) 502))
     else
     io_bind (io_eval (get_prop session ''url'')) (\<lambda>session_url.
     io_return (json (JObj [(''url'', session_url)]) 200))))"

definition create_portal_session :: "string option \<Rightarrow> upstream \<Rightarrow> request \<Rightarrow> response io" where
  "create_portal_session env fetch req =
     (let STRIPE_SECRET_KEY = env_or_empty env in
      if req_method req = ''OPTIONS'' then io_return preflight
      else if req_method req \<noteq> ''POST'' then
        io_return (json (JObj [(''error'', JStr ''Method not allowed'')]) 405)
      else if STRIPE_SECRET_KEY = [] then
        io_return (json (JObj [(''error'', JStr ''Server configuration error'')]) 500)
      else
        case req_json req of
          None \<Rightarrow> io_return (json (JObj [(''error'', JStr ''Invalid JSON body'')]) 400)
        | Some body \<Rightarrow>
            io_bind (io_eval (get_prop body ''customerId'')) (\<lambda>customerId.
            io_bind (io_eval (get_prop body ''returnUrl'')) (\<lambda>returnUrl.
            if \<not> truthy customerId \<or> \<not> truthy returnUrl then
              io_return (json (JObj [(''error'', JStr ''customerId and returnUrl are required'')]) 400)
            else
              io_catch (create_portal_session_try fetch STRIPE_SECRET_KEY customerId returnUrl)
                internal_server_error)))"

section \<open>send-email\<close>

subsection \<open>Email templates\<close>

definition nl :: string where
  "nl = [CHR 0x0A]"

text \<open>The characters of the templates outside ASCII, in UTF-8: the em dash, the middle
  dot, and the golfer emoji with its variation selector.\<close>

definition em_dash :: string where
  "em_dash = [CHR 0xE2, CHR 0x80, CHR 0x94]"

definition middle_dot :: string where
  "middle_dot = [CHR 0xC2, CHR 0xB7]"

definition golfer_emoji :: string where
  "golfer_emoji = [CHR 0xF0, CHR 0x9F, CHR 0x8F, CHR 0x8C, CHR 0xEF, CHR 0xB8, CHR 0x8F]"

definition ctaButton :: "string \<Rightarrow> string \<Rightarrow> string" where
  \<open>ctaButton href label =
     ''<p style="margin:28px 0;">'' @ nl @
     ''    <a href="'' @ href @ ''" style="display:inline-block;padding:14px 32px;background:#1B3D2A;color:#F5F0E8;font-family:'Bebas Neue',Arial,sans-serif;font-size:16px;letter-spacing:2px;text-decoration:none;border-radius:4px;">'' @ label @ ''</a>'' @ nl @
     ''  </p>''\<close>

definition template :: "string \<Rightarrow> string \<Rightarrow> string" where
  \<open>template heading body =
     ''<!DOCTYPE html>'' @ nl @
     ''<html lang="en">'' @ nl @
     ''<head>'' @ nl @
     ''<meta charset="UTF-8">'' @ nl @
     ''<meta name="viewport" content="width=device-width,initial-scale=1">'' @ nl @
     ''<link href="https://fonts.googleapis.com/css2?family=Bebas+Neue&family=DM+Sans:wght@400;500&display=swap" rel="stylesheet">'' @ nl @
     ''<style>'' @ nl @
     ''  body { margin:0; background:#F5F0E8; font-family:'DM Sans',Arial,sans-serif; }'' @ nl @
     ''  a { color:#1B3D2A; }'' @ nl @
     ''</style>'' @ nl @
     ''</head>'' @ nl @
     ''<body>'' @ nl @
     ''<table width="100%" cellpadding="0" cellspacing="0" bgcolor="#F5F0E8">'' @ nl @
     ''  <tr><td align="center" style="padding:40px 16px;">'' @ nl @
     ''    <table width="100%" cellpadding="0" cellspacing="0" style="max-width:560px;">'' @ nl @
     nl @
     ''      <!-- Header -->'' @ nl @
     ''      <tr>'' @ nl @
     ''        <td style="background:#1B3D2A; padding:28px 40px; border-radius:8px 8px 0 0;">'' @ nl @
     ''          <span style="font-family:'Bebas Neue',Arial,sans-serif;font-size:28px;color:#C9A84C;letter-spacing:2px;">4FORE LEAGUE</span>'' @ nl @
     ''        </td>'' @ nl @
     ''      </tr>'' @ nl @
     nl @
     ''      <!-- Body -->'' @ nl @
     ''      <tr>'' @ nl @
     ''        <td style="background:#ffffff;padding:40px;border-radius:0 0 8px 8px;">'' @ nl @
     ''          <h1 style="font-family:'Bebas Neue',Arial,sans-serif;font-size:32px;color:#1B3D2A;margin:0 0 20px;letter-spacing:1px;">'' @ heading @ ''</h1>'' @ nl @
     ''          <div style="font-size:15px;line-height:1.7;color:#333;">'' @ nl @
     ''            '' @ body @ nl @
     ''          </div>'' @ nl @
     ''        </td>'' @ nl @
     ''      </tr>'' @ nl @
     nl @
     ''      <!-- Footer -->'' @ nl @
     ''      <tr>'' @ nl @
     ''        <td style="padding:24px 0;text-align:center;">'' @ nl @
     ''          <p style="font-size:12px;color:#9B9083;margin:0;">4FORE League '' @ middle_dot @ '' Never Lay Up</p>'' @ nl @
     ''          <p style="font-size:12px;color:#9B9083;margin:4px 0 0;">'' @ nl @
     ''            <a href="https://4fore-league.vercel.app" style="color:#9B9083;">4fore-league.vercel.app</a>'' @ nl @
     ''          </p>'' @ nl @
     ''        </td>'' @ nl @
     ''      </tr>'' @ nl @
     nl @
     ''    </table>'' @ nl @
     ''  </td></tr>'' @ nl @
     ''</table>'' @ nl @
     ''</body>'' @ nl @
     ''</html>''\<close>

definition welcome_body :: string where
  \<open>welcome_body =
     nl @
     ''          <p>You're in. Your 14-day free trial has started '' @ em_dash @ '' no charge today.</p>'' @ nl @
     ''          <p>Here's what you can do right now:</p>'' @ nl @
     ''          <ul>'' @ nl @
     ''            <li><strong>Start a round</strong> '' @ em_dash @ '' invite friends and score live</li>'' @ nl @
     ''            <li><strong>Complete your profile</strong> '' @ em_dash @ '' set your handicap and display name</li>'' @ nl @
     ''            <li><strong>Explore the leaderboard</strong> '' @ em_dash @ '' see how your group stacks up</li>'' @ nl @
     ''          </ul>'' @ nl @
     ''          '' @ (ctaButton ''https://4fore-league.vercel.app/round.html'' ''Start Your First Round'') @ nl @
     ''          <p style="color:#6B6B6B;font-size:13px;margin-top:24px;">Questions? Just reply to this email.</p>'' @ nl @
     ''        ''\<close>

definition password_reset_body :: "string \<Rightarrow> string" where
  \<open>password_reset_body name =
     nl @
     ''          <p>Hi '' @ name @ '',</p>'' @ nl @
     ''          <p>We received a request to reset your password. Click the link in the separate email from Supabase to set a new one.</p>'' @ nl @
     ''          <p>If you didn't request this, you can safely ignore this message '' @ em_dash @ '' your account is secure.</p>'' @ nl @
     ''          <p style="color:#6B6B6B;font-size:13px;margin-top:24px;">This request will expire in 24 hours.</p>'' @ nl @
     ''        ''\<close>

definition trial_expiry_7_body :: "string \<Rightarrow> string" where
  \<open>trial_expiry_7_body name =
     nl @
     ''          <p>Hi '' @ name @ '',</p>'' @ nl @
     ''          <p>Your free trial ends in <strong>7 days</strong>. After that, your card on file will be charged to keep your rounds, leaderboard, and profile active.</p>'' @ nl @
     ''          <p>You don't need to do anything '' @ em_dash @ '' we'll handle it automatically.</p>'' @ nl @
     ''          '' @ (ctaButton ''https://4fore-league.vercel.app/round.html'' ''Play a Round Today'') @ nl @
     ''        ''\<close>

definition trial_expiry_3_body :: "string \<Rightarrow> string" where
  \<open>trial_expiry_3_body name =
     nl @
     ''          <p>Hi '' @ name @ '',</p>'' @ nl @
     ''          <p>Just a heads up '' @ em_dash @ '' your trial ends in <strong>3 days</strong>. Your scoring history and league data will be preserved.</p>'' @ nl @
     ''          '' @ (ctaButton ''https://4fore-league.vercel.app/round.html'' ''Make the most of it'') @ nl @
     ''        ''\<close>

definition trial_expiry_1_body :: "string \<Rightarrow> string" where
  \<open>trial_expiry_1_body name =
     nl @
     ''          <p>Hi '' @ name @ '',</p>'' @ nl @
     ''          <p>Your trial ends <strong>tomorrow</strong>. Your card will be charged after midnight to continue your membership.</p>'' @ nl @
     ''          <p>If you'd like to cancel, reply to this email and we'll sort it out '' @ em_dash @ '' no questions asked.</p>'' @ nl @
     ''          '' @ (ctaButton ''https://4fore-league.vercel.app/round.html'' ''Play one last trial round'') @ nl @
     ''        ''\<close>

record email =
  subject :: string
  html :: string

text \<open>
  \<^verbatim>\<open>data.name\<close> is read before the \<^verbatim>\<open>switch\<close>, so a null \<^verbatim>\<open>data\<close> throws whatever the
  type is. The \<^verbatim>\<open>switch\<close> compares with \<^verbatim>\<open>===\<close>: only a string matches a case. The name
  is converted to a string where the matching case interpolates it, and not at all when
  no case matches.
\<close>

definition buildEmail :: "js \<Rightarrow> js \<Rightarrow> js \<Rightarrow> email option outcome" where
  "buildEmail type to data =
     (case get_prop data ''name'' of
        Inl e \<Rightarrow> Inl e
      | Inr data_name \<Rightarrow>
          (let name = nullish_or data_name (JStr ''Golfer'') in
           if type = JStr ''welcome'' then
             interpolating name (\<lambda>name.
               Some \<lparr>subject = ''Welcome to 4FORE League '' @ golfer_emoji,
                     html = template (''Welcome, '' @ name @ ''!'') welcome_body\<rparr>)
           else if type = JStr ''password-reset'' then
             interpolating name (\<lambda>name.
               Some \<lparr>subject = ''Reset your 4FORE League password'',
                     html = template ''Reset your password'' (password_reset_body name)\<rparr>)
           else if type = JStr ''trial-expiry-7'' then
             interpolating name (\<lambda>name.
               Some \<lparr>subject = ''Your 4FORE trial ends in 7 days'',
                     html = template ''7 days left on your trial'' (trial_expiry_7_body name)\<rparr>)
           else if type = JStr ''trial-expiry-3'' then
             interpolating name (\<lambda>name.
               Some \<lparr>subject = ''Your 4FORE trial ends in 3 days'',
                     html = template ''3 days left on your trial'' (trial_expiry_3_body name)\<rparr>)
           else if type = JStr ''trial-expiry-1'' then
             interpolating name (\<lambda>name.
               Some \<lparr>subject = ''Last day of your 4FORE trial'',
                     html = template ''Trial ends tomorrow'' (trial_expiry_1_body name)\<rparr>)
           else Inr None))"

subsection \<open>The handler\<close>

definition FROM_ADDRESS :: string where
  "FROM_ADDRESS = ''4FORE League <hello@4fore.golf>''"

definition send_email_try :: "upstream \<Rightarrow> string \<Rightarrow> js \<Rightarrow> email \<Rightarrow> response io" where
  "send_email_try fetch RESEND_API_KEY to email =
     io_bind (io_fetch fetch
        \<lparr>url = ''https://api.resend.com/emails'',
         init_method = ''POST'',
         init_headers = [(''Authorization'', ''Bearer '' @ RESEND_API_KEY),
                         (''Content-Type'', ''application/json'')],
         init_body = Some (JSON_stringify (JObj
           [(''from'', JStr FROM_ADDRESS),
            (''to'', JArr [to]),
            (''subject'', JStr (subject email)),
            (''html'', JStr (html email))]))\<rparr>) (\<lambda>res.
     io_bind (io_eval (res_json res)) (\<lambda>result.
     if \<not> ok res then
       io_bind (io_eval (get_prop result ''message'')) (\<lambda>message.
       io_return (json (JObj [(''error'', nullish_or message (JStr ''Failed to send email''))]) 502))
     else
     io_bind (io_eval (get_prop result ''id'')) (\<lambda>result_id.
     io_return (json (JObj [(''id'', result_id)]) 200))))"

text \<open>
  The destructuring default \<^verbatim>\<open>data = {}\<close> applies when \<^verbatim>\<open>body.data\<close> is undefined only.
  \<^verbatim>\<open>buildEmail\<close> is called and the message for an unknown type is built outside the
  \<^verbatim>\<open>try\<close>: what they throw leaves the handler.
\<close>

definition send_email :: "string option \<Rightarrow> upstream \<Rightarrow> request \<Rightarrow> response io" where
  "send_email env fetch req =
     (let RESEND_API_KEY = env_or_empty env in
      if req_method req = ''OPTIONS'' then io_return preflight
      else if req_method req \<noteq> ''POST'' then
        io_return (json (JObj [(''error'', JStr ''Method not allowed'')]) 405)
      else if RESEND_API_KEY = [] then
        io_return (json (JObj [(''error'', JStr ''Server configuration error'')]) 500)
      else
        case req_json req of
          None \<Rightarrow> io_return (json (JObj [(''error'', JStr ''Invalid JSON body'')]) 400)
        | Some body \<Rightarrow>
            io_bind (io_eval (get_prop body ''type'')) (\<lambda>type.
            io_bind (io_eval (get_prop body ''to'')) (\<lambda>to.
            io_bind (io_eval (get_prop body ''data'')) (\<lambda>body_data.
            let data = (if body_data = JUndefined then JObj [] else body_data) in
            if \<not> truthy type \<or> \<not> truthy to then
              io_return (json (JObj [(''error'', JStr ''type and to are required'')]) 400)
            else
              io_bind (io_eval (buildEmail type to data)) (\<lambda>email.
              case email of
                None \<Rightarrow>
                  io_bind (io_eval (interpolating type (\<lambda>type. ''Unknown email type: '' @ type))) (\<lambda>message.
                  io_return (json (JObj [(''error'', JStr message)]) 400))
              | Some email \<Rightarrow>
                  io_catch (send_email_try fetch RESEND_API_KEY to email) internal_server_error)))))"

section \<open>The browser side: auth.js\<close>

definition EDGE_BASE :: string where
  "EDGE_BASE = ''https://jfegilifmksmngslnbgm.supabase.co'' @ ''/functions/v1''"

text \<open>\<^verbatim>\<open>new Error(json.error)\<close> takes the string of its argument as the message, and
  throws the TypeError of the conversion when the argument has no string.\<close>

definition createSetupIntent :: "upstream \<Rightarrow> js \<Rightarrow> js \<Rightarrow> js io" where
  "createSetupIntent fetch email userId =
     io_bind (io_fetch fetch
        \<lparr>url = EDGE_BASE @ ''/create-setup-intent'',
         init_method = ''POST'',
         init_headers = [(''Content-Type'', ''application/json'')],
         init_body = Some (JSON_stringify (JObj [(''email'', email), (''userId'', userId)]))\<rparr>) (\<lambda>res.
     io_bind (io_eval (res_json res)) (\<lambda>json.
     io_bind (io_eval (get_prop json ''error'')) (\<lambda>json_error.
     if truthy json_error then
       io_eval (case js_to_string json_error of Inl e \<Rightarrow> Inl e | Inr message \<Rightarrow> Inl (Error message))
     else io_return json)))"

definition sendEmail :: "upstream \<Rightarrow> js \<Rightarrow> js \<Rightarrow> js \<Rightarrow> js io" where
  "sendEmail fetch type to data_arg =
     (let data = (if data_arg = JUndefined then JObj [] else data_arg) in
      io_bind (io_fetch fetch
        \<lparr>url = EDGE_BASE @ ''/send-email'',
         init_method = ''POST'',
         init_headers = [(''Content-Type'', ''application/json'')],
         init_body = Some (JSON_stringify (JObj [(''type'', type), (''to'', to), (''data'', data)]))\<rparr>) (\<lambda>res.
      io_eval (res_json res)))"

subsection \<open>Profile upsert\<close>

text \<open>
  The object literal \<^verbatim>\<open>{ id: userId, ...fields, updated_at: new Date().toISOString() }\<close>.
  Setting a key that exists replaces its value in place; a new key goes to the end. A
  spread copies the own properties of its operand: those of an object, the indexed
  elements of an array or a string, none of any other value. (The engine lists
  integer-like keys first; only lookups of the row are stated below.)
\<close>

definition obj_set :: "(string \<times> js) list \<Rightarrow> string \<Rightarrow> js \<Rightarrow> (string \<times> js) list" where
  "obj_set kvs k v =
     (if k \<in> fst ` set kvs then map (\<lambda>(k', v'). if k' = k then (k', v) else (k', v')) kvs
      else kvs @ [(k, v)])"

fun own_props :: "js \<Rightarrow> (string \<times> js) list" where
  "own_props (JObj kvs) = kvs"
| "own_props (JArr xs) = zip (map decimal [0..<length xs]) xs"
| "own_props (JStr s) = zip (map decimal [0..<length s]) (map (\<lambda>c. JStr [c]) s)"
| "own_props v = []"

definition spread :: "(string \<times> js) list \<Rightarrow> js \<Rightarrow> (string \<times> js) list" where
  "spread target v = fold (\<lambda>(k, x) acc. obj_set acc k x) (own_props v) target"

text \<open>
  The datastore client \<^verbatim>\<open>window.sb\<close> is a function from the upsert it is asked for to
  what it answers; \<open>fields_arg\<close> is the parameter \<^verbatim>\<open>fields\<close>, and \<open>now_iso\<close> is \<^verbatim>\<open>new Date().toISOString()\<close>, the clock of the browser
  that runs the facade.
\<close>

datatype upsert_call = Upsert (table: string) (row: "(string \<times> js) list")

definition upsertProfile :: "(upsert_call \<Rightarrow> 'r) \<Rightarrow> string \<Rightarrow> js \<Rightarrow> js \<Rightarrow> 'r" where
  "upsertProfile sb now_iso userId fields_arg =
     sb (Upsert ''profiles''
           (obj_set (spread (obj_set [] ''id'' userId) fields_arg) ''updated_at'' (JStr now_iso)))"

section \<open>Notions used to state the properties\<close>

subsection \<open>Requests sent upstream\<close>

text \<open>The requests the handlers and the browser wrappers send, by name.\<close>

definition stripe_get :: "string \<Rightarrow> string \<Rightarrow> fetch_init" where
  "stripe_get key path =
     \<lparr>url = ''https://api.stripe.com/v1/'' @ path, init_method = ''GET'',
      init_headers = [(''Authorization'', ''Bearer '' @ key)], init_body = None\<rparr>"

definition stripe_post :: "string \<Rightarrow> string \<Rightarrow> string \<Rightarrow> fetch_init" where
  "stripe_post key path body =
     \<lparr>url = ''https://api.stripe.com/v1/'' @ path, init_method = ''POST'',
      init_headers = [(''Authorization'', ''Bearer '' @ key),
                      (''Content-Type'', ''application/x-www-form-urlencoded'')],
      init_body = Some body\<rparr>"

text \<open>The parameters of the subscription that create-subscription asks for.\<close>

definition subscription_params :: "js \<Rightarrow> js \<Rightarrow> js \<Rightarrow> (string \<times> js) list" where
  "subscription_params customerId priceId paymentMethodId =
     [(''customer'', customerId),
      (''items[0][price]'', priceId),
      (''default_payment_method'', paymentMethodId),
      (''payment_behavior'', JStr ''default_incomplete''),
      (''expand[]'', JStr ''latest_invoice.payment_intent'')]"

definition subscription_url :: string where
  "subscription_url = ''https://api.stripe.com/v1/subscriptions''"

definition createSetupIntent_request :: "js \<Rightarrow> js \<Rightarrow> fetch_init" where
  "createSetupIntent_request email userId =
     \<lparr>url = EDGE_BASE @ ''/create-setup-intent'', init_method = ''POST'',
      init_headers = [(''Content-Type'', ''application/json'')],
      init_body = Some (JSON_stringify (JObj [(''email'', email), (''userId'', userId)]))\<rparr>"

definition sendEmail_request :: "js \<Rightarrow> js \<Rightarrow> js \<Rightarrow> fetch_init" where
  "sendEmail_request type to data_arg =
     \<lparr>url = EDGE_BASE @ ''/send-email'', init_method = ''POST'',
      init_headers = [(''Content-Type'', ''application/json'')],
      init_body = Some (JSON_stringify (JObj [(''type'', type), (''to'', to),
        (''data'', if data_arg = JUndefined then JObj [] else data_arg)]))\<rparr>"

subsection \<open>Upstream answers\<close>

text \<open>
  An upstream call raises when \<^verbatim>\<open>fetch\<close> rejects or when \<^verbatim>\<open>res.json()\<close> rejects because
  the body is not JSON.
\<close>

definition raised :: "upstream \<Rightarrow> fetch_init \<Rightarrow> bool" where
  "raised fetch c = (case fetch c of Inl e \<Rightarrow> True | Inr res \<Rightarrow> isl (res_json res))"

text \<open>The error of an upstream answer: the \<^verbatim>\<open>error\<close> field of the mapping that came back
  for the request \<open>c\<close>, when there is one and it is truthy.\<close>

definition error_of :: "upstream \<Rightarrow> fetch_init \<Rightarrow> js option" where
  "error_of fetch c =
     (case fetch c of
        Inl e \<Rightarrow> None
      | Inr res \<Rightarrow>
          (case res_json res of
             Inr (JObj kvs) \<Rightarrow>
               (case map_of kvs ''error'' of None \<Rightarrow> None | Some err \<Rightarrow> if truthy err then Some err else None)
           | _ \<Rightarrow> None))"

text \<open>The message of an upstream error, or the fallback when it has none: what
  \<^verbatim>\<open>err.message ?? fallback\<close> evaluates to for an error that is not null or undefined.\<close>

definition upstream_message :: "js \<Rightarrow> string \<Rightarrow> js" where
  "upstream_message err fallback =
     nullish_or (case get_prop err ''message'' of Inl e \<Rightarrow> JUndefined | Inr m \<Rightarrow> m) (JStr fallback)"

text \<open>The spec's words: the customer's configured default payment method, and the
  identifier of the first payment method of the listing.\<close>

definition default_payment_method_of :: "js \<Rightarrow> js" where
  "default_payment_method_of customer =
     (case customer of
        JObj ckvs \<Rightarrow>
          (case map_of ckvs ''invoice_settings'' of
             Some (JObj settings) \<Rightarrow>
               (case map_of settings ''default_payment_method'' of None \<Rightarrow> JUndefined | Some v \<Rightarrow> v)
           | _ \<Rightarrow> JUndefined)
      | _ \<Rightarrow> JUndefined)"

definition first_listed_id :: "js \<Rightarrow> js" where
  "first_listed_id pms =
     (case pms of
        JObj pkvs \<Rightarrow>
          (case map_of pkvs ''data'' of
             Some (JArr (JObj pm # rest)) \<Rightarrow>
               (case map_of pm ''id'' of None \<Rightarrow> JUndefined | Some v \<Rightarrow> v)
           | _ \<Rightarrow> JUndefined)
      | _ \<Rightarrow> JUndefined)"

text \<open>A listing is a mapping whose \<^verbatim>\<open>data\<close>, when it has one, is a list of mappings.\<close>

definition is_listing :: "js \<Rightarrow> bool" where
  "is_listing pms =
     (case pms of
        JObj pkvs \<Rightarrow>
          (case map_of pkvs ''data'' of
             None \<Rightarrow> True
           | Some (JArr xs) \<Rightarrow> list_all (\<lambda>x. case x of JObj pm \<Rightarrow> True | _ \<Rightarrow> False) xs
           | Some _ \<Rightarrow> False)
      | _ \<Rightarrow> False)"



text \<open>The request body without the field \<open>f\<close>.\<close>

definition remove_key :: "string \<Rightarrow> (string \<times> js) list \<Rightarrow> (string \<times> js) list" where
  "remove_key f kvs = filter (\<lambda>(k, v). k \<noteq> f) kvs"

subsection \<open>Properties of computations\<close>

text \<open>A computation fails closed when a raising call among those it sent makes it throw.\<close>

definition fails_closed :: "upstream \<Rightarrow> 'a io \<Rightarrow> bool" where
  "fails_closed fetch m = ((\<exists>c \<in> set (snd m). raised fetch c) \<longrightarrow> isl (fst m))"

text \<open>A computation is quiet when it sends nothing to the subscriptions endpoint. It stops
  on error when an error that came back from that endpoint decides its outcome, the 502
  envelope, and was answered to its last request.\<close>

definition quiet :: "'a io \<Rightarrow> bool" where
  "quiet m = (\<forall>c \<in> set (snd m). url c \<noteq> subscription_url)"

definition stops_on_error :: "upstream \<Rightarrow> response io \<Rightarrow> bool" where
  "stops_on_error fetch m =
     (\<forall>c \<in> set (snd m). \<forall>err. url c = subscription_url \<and> error_of fetch c = Some err \<longrightarrow>
        fst m = Inr (json (JObj [(''error'', upstream_message err ''Failed to create subscription'')]) 502) \<and>
        last (snd m) = c)"

text \<open>
  A run of create-subscription goes on to create the subscription with a payment method,
  after the requests \<open>earlier\<close>: it then sends the POST to the subscriptions endpoint whose
  body carries the customer, the price and that payment method. When one of the three
  has no string the body cannot be built: the run answers 500 and sends nothing more.
\<close>

definition creates_subscription ::
  "response io \<Rightarrow> fetch_init list \<Rightarrow> string \<Rightarrow> js \<Rightarrow> js \<Rightarrow> js \<Rightarrow> bool" where
  \<open>creates_subscription run earlier key customerId priceId paymentMethodId =
     (case URLSearchParams_toString (subscription_params customerId priceId paymentMethodId) of
        Inr body \<Rightarrow> snd run = earlier @ [stripe_post key ''subscriptions'' body]
      | Inl e \<Rightarrow>
          run = (Inr \<lparr>status = 500,
                      headers = CORS_HEADERS @ [(''Content-Type'', ''application/json'')],
                      body_text = Some ''{"error":"Internal server error"}''\<rparr>, earlier))\<close>

text \<open>The last step of create-subscription, as it stands in the handler: the subscription
  is created with the payment method found.\<close>

definition subscribe :: "upstream \<Rightarrow> string \<Rightarrow> js \<Rightarrow> js \<Rightarrow> js \<Rightarrow> response io" where
  "subscribe fetch STRIPE_SECRET_KEY customerId priceId paymentMethodId =
     io_bind (stripePost fetch STRIPE_SECRET_KEY ''subscriptions''
                [(''customer'', customerId),
                 (''items[0][price]'', priceId),
                 (''default_payment_method'', paymentMethodId),
                 (''payment_behavior'', JStr ''default_incomplete''),
                 (''expand[]'', JStr ''latest_invoice.payment_intent'')]) (\<lambda>subscription.
     io_bind (io_eval (get_prop subscription ''error'')) (\<lambda>subscription_error.
     if truthy subscription_error then
       io_bind (io_eval (get_prop subscription_error ''message'')) (\<lambda>message.
       io_return (json (JObj [(''error'', nullish_or message (JStr ''Failed to create subscription''))]) 502))
     else
     io_bind (io_eval (get_prop subscription ''id'')) (\<lambda>subscription_id.
     io_bind (io_eval (get_prop subscription ''status'')) (\<lambda>subscription_status.
     io_return (json (JObj [(''subscriptionId'', subscription_id),
                            (''status'', subscription_status)]) 200)))))"

subsection \<open>Sample requests and upstreams\<close>

text \<open>
  A POST with a JSON object as body; answers with a value, with a Stripe error, and with
  the error envelope of a handler; an upstream that refuses every connection; and
  upstreams for the runs of create-subscription evaluated below, which tell the
  customer fetch from the later requests by the URL.
\<close>

definition post :: "(string \<times> js) list \<Rightarrow> request" where
  "post kvs = \<lparr>req_method = ''POST'', req_json = Some (JObj kvs)\<rparr>"

definition reply :: "js \<Rightarrow> fetch_response outcome" where
  "reply v = Inr \<lparr>ok = True, res_json = Inr v\<rparr>"

definition reply_error :: "string \<Rightarrow> fetch_response outcome" where
  "reply_error msg = Inr \<lparr>ok = False, res_json = Inr (JObj [(''error'', JObj [(''message'', JStr msg)])])\<rparr>"

definition envelope :: "js \<Rightarrow> fetch_response outcome" where
  "envelope msg = Inr \<lparr>ok = False, res_json = Inr (JObj [(''error'', msg)])\<rparr>"

definition unreachable :: upstream where
  "unreachable c = Inl (TypeError ''error sending request: connection refused'')"

definition customer_missing :: upstream where
  "customer_missing c = reply_error ''No such customer: cus_1''"

definition price_missing :: upstream where
  "price_missing c =
     (if url c = ''https://api.stripe.com/v1/customers/cus_1'' then
        reply (JObj [(''id'', JStr ''cus_1''),
                     (''invoice_settings'', JObj [(''default_payment_method'', JStr ''pm_1'')])])
      else reply_error ''No such price: price_1'')"

definition listing_fails :: upstream where
  "listing_fails c =
     (if url c = ''https://api.stripe.com/v1/customers/cus_1'' then reply (JObj [(''id'', JStr ''cus_1'')])
      else reply_error ''Rate limit exceeded'')"

definition empty_error :: upstream where
  "empty_error c =
     (if url c = ''https://api.stripe.com/v1/customers/cus_1'' then
        reply (JObj [(''id'', JStr ''cus_1''), (''error'', JStr []),
                     (''invoice_settings'', JObj [(''default_payment_method'', JStr ''pm_1'')])])
      else reply (JObj [(''id'', JStr ''sub_1''), (''status'', JStr ''active'')]))"

definition card_listed :: upstream where
  "card_listed c =
     (if url c = ''https://api.stripe.com/v1/customers/cus_1'' then reply (JObj [(''id'', JStr ''cus_1'')])
      else if url c = ''https://api.stripe.com/v1/payment_methods?customer=cus_1&type=card'' then
        reply (JObj [(''data'', JArr [JObj [(''id'', JStr ''pm_2''), (''type'', JStr ''card'')]])])
      else reply (JObj [(''id'', JStr ''sub_1''), (''status'', JStr ''incomplete'')]))"

definition no_cards :: upstream where
  "no_cards c =
     (if url c = ''https://api.stripe.com/v1/customers/cus_1'' then reply (JObj [(''id'', JStr ''cus_1'')])
      else reply (JObj [(''data'', JArr [])]))"

section \<open>Properties\<close>

lemmas io_defs = io_return_def io_eval_def io_fetch_def io_bind_def io_catch_def

lemma method_not_allowed_response:
  \<open>json (JObj [(''error'', JStr ''Method not allowed'')]) 405 =
     \<lparr>status = 405,
      headers = CORS_HEADERS @ [(''Content-Type'', ''application/json'')],
      body_text = Some ''{"error":"Method not allowed"}''\<rparr>\<close>
  by (simp add: json_def JSON_stringify_def quote_def quote_char_def)

subsection \<open>Pre-flight and method check\<close>

text \<open>
  Claim C5. Each of the four handlers answers an OPTIONS request with status 204, no
  body and the fixed CORS headers, and a request whose method is neither OPTIONS nor
  POST with status 405 and the body \<^verbatim>\<open>{"error":"Method not allowed"}\<close>. Neither answer
  depends on the configured credential, on the request body or on the upstream, and
  nothing is sent upstream: the two checks come before everything else.
\<close>

theorem method_check:
  \<open>(req_method req = ''OPTIONS'' \<longrightarrow>
      create_setup_intent env fetch req =
        (Inr \<lparr>status = 204, headers = CORS_HEADERS, body_text = None\<rparr>, []) \<and>
      create_subscription str_pos env fetch req =
        (Inr \<lparr>status = 204, headers = CORS_HEADERS, body_text = None\<rparr>, []) \<and>
      create_portal_session env fetch req =
        (Inr \<lparr>status = 204, headers = CORS_HEADERS, body_text = None\<rparr>, []) \<and>
      send_email env fetch req =
        (Inr \<lparr>status = 204, headers = CORS_HEADERS, body_text = None\<rparr>, [])) \<and>
   (req_method req \<noteq> ''OPTIONS'' \<and> req_method req \<noteq> ''POST'' \<longrightarrow>
      create_setup_intent env fetch req =
        (Inr \<lparr>status = 405, headers = CORS_HEADERS @ [(''Content-Type'', ''application/json'')],
              body_text = Some ''{"error":"Method not allowed"}''\<rparr>, []) \<and>
      create_subscription str_pos env fetch req =
        (Inr \<lparr>status = 405, headers = CORS_HEADERS @ [(''Content-Type'', ''application/json'')],
              body_text = Some ''{"error":"Method not allowed"}''\<rparr>, []) \<and>
      create_portal_session env fetch req =
        (Inr \<lparr>status = 405, headers = CORS_HEADERS @ [(''Content-Type'', ''application/json'')],
              body_text = Some ''{"error":"Method not allowed"}''\<rparr>, []) \<and>
      send_email env fetch req =
        (Inr \<lparr>status = 405, headers = CORS_HEADERS @ [(''Content-Type'', ''application/json'')],
              body_text = Some ''{"error":"Method not allowed"}''\<rparr>, []))\<close>
  by (simp add: create_setup_intent_def create_subscription_def create_portal_session_def
        send_email_def preflight_def io_return_def method_not_allowed_response Let_def)

theorem method_check_witness:
  \<open>create_subscription (\<lambda>s. False) None (\<lambda>r. Inl (TypeError ''network''))
       \<lparr>req_method = ''OPTIONS'', req_json = None\<rparr> =
     (Inr \<lparr>status = 204, headers = CORS_HEADERS, body_text = None\<rparr>, []) \<and>
   send_email None (\<lambda>r. Inl (TypeError ''network'')) \<lparr>req_method = ''GET'', req_json = None\<rparr> =
     (Inr \<lparr>status = 405, headers = CORS_HEADERS @ [(''Content-Type'', ''application/json'')],
           body_text = Some ''{"error":"Method not allowed"}''\<rparr>, [])\<close>
  using method_check [of \<open>\<lparr>req_method = ''OPTIONS'', req_json = None\<rparr>\<close> None
                        \<open>\<lambda>r. Inl (TypeError ''network'')\<close> \<open>\<lambda>s. False\<close>]
        method_check [of \<open>\<lparr>req_method = ''GET'', req_json = None\<rparr>\<close> None
                        \<open>\<lambda>r. Inl (TypeError ''network'')\<close> \<open>\<lambda>s. False\<close>]
  by simp

subsection \<open>Transport failures\<close>

lemma fails_closed_return [simp]: "fails_closed fetch (io_return x)"
  by (simp add: fails_closed_def io_return_def)

lemma fails_closed_eval [simp]: "fails_closed fetch (io_eval x)"
  by (simp add: fails_closed_def io_eval_def)

lemma fails_closed_bind:
  "fails_closed fetch m \<Longrightarrow> (\<And>x. fails_closed fetch (f x)) \<Longrightarrow> fails_closed fetch (io_bind m f)"
proof (cases m)
  case (Pair r sent)
  assume m: "fails_closed fetch m" and f: "\<And>x. fails_closed fetch (f x)"
  show ?thesis
  proof (cases r)
    case (Inl e)
    with Pair show ?thesis by (simp add: fails_closed_def io_bind_def)
  next
    case (Inr x)
    obtain r' sent' where fx: "f x = (r', sent')" by (cases "f x")
    from m Pair Inr have quiet: "\<forall>c \<in> set sent. \<not> raised fetch c"
      by (auto simp: fails_closed_def)
    from f [of x] fx have "(\<exists>c \<in> set sent'. raised fetch c) \<longrightarrow> isl r'"
      by (simp add: fails_closed_def)
    with quiet Pair Inr fx show ?thesis
      by (auto simp: fails_closed_def io_bind_def)
  qed
qed

lemma fails_closed_if:
  "fails_closed fetch m \<Longrightarrow> fails_closed fetch n \<Longrightarrow> fails_closed fetch (if b then m else n)"
  by simp

lemma fails_closed_stripeGet [simp]: "fails_closed fetch (stripeGet fetch key path)"
  by (auto simp: fails_closed_def stripeGet_def io_defs raised_def split: sum.splits)

lemma fails_closed_stripePost [simp]: "fails_closed fetch (stripePost fetch key path params)"
  by (auto simp: fails_closed_def stripePost_def io_defs raised_def split: sum.splits)

lemma fails_closed_setup_intent:
  "fails_closed fetch (create_setup_intent_try fetch key email userId)"
  unfolding create_setup_intent_try_def
  by (intro fails_closed_bind fails_closed_if fails_closed_stripePost fails_closed_eval
        fails_closed_return)

lemma fails_closed_subscription:
  "fails_closed fetch (create_subscription_try str_pos fetch key customerId priceId)"
  unfolding create_subscription_try_def
  by (intro fails_closed_bind fails_closed_if fails_closed_stripePost fails_closed_stripeGet
        fails_closed_eval fails_closed_return)

lemma fails_closed_portal:
  "fails_closed fetch (create_portal_session_try fetch key customerId returnUrl)"
  unfolding create_portal_session_try_def
  by (intro fails_closed_bind fails_closed_if fails_closed_stripePost fails_closed_eval
        fails_closed_return)

lemma fails_closed_send: "fails_closed fetch (send_email_try fetch key to email)"
  by (auto simp: fails_closed_def send_email_try_def io_defs raised_def split: sum.splits)

lemma internal_server_error_response:
  \<open>json (JObj [(''error'', JStr ''Internal server error'')]) 500 =
     \<lparr>status = 500,
      headers = CORS_HEADERS @ [(''Content-Type'', ''application/json'')],
      body_text = Some ''{"error":"Internal server error"}''\<rparr>\<close>
  by (simp add: json_def JSON_stringify_def quote_def quote_char_def)

lemma catch_fails_closed:
  assumes "fails_closed fetch m" "c \<in> set (snd (io_catch m internal_server_error))" "raised fetch c"
  shows "fst (io_catch m internal_server_error) =
           Inr (json (JObj [(''error'', JStr ''Internal server error'')]) 500)"
  using assms
  by (cases m; cases "fst m")
     (auto simp: fails_closed_def io_catch_def internal_server_error_def io_return_def)

lemma bind_eval: "io_bind (io_eval v) f = (case v of Inl e \<Rightarrow> (Inl e, []) | Inr x \<Rightarrow> f x)"
  by (cases v) (auto simp: io_bind_def io_eval_def split: prod.splits)

lemma setup_intent_500:
  "\<exists>c \<in> set (snd (create_setup_intent env fetch req)). raised fetch c \<Longrightarrow>
   fst (create_setup_intent env fetch req) =
     Inr (json (JObj [(''error'', JStr ''Internal server error'')]) 500)"
  unfolding create_setup_intent_def Let_def bind_eval
  by (auto simp: io_return_def split: if_splits option.splits sum.splits
        intro: catch_fails_closed [OF fails_closed_setup_intent])

lemma subscription_500:
  "\<exists>c \<in> set (snd (create_subscription str_pos env fetch req)). raised fetch c \<Longrightarrow>
   fst (create_subscription str_pos env fetch req) =
     Inr (json (JObj [(''error'', JStr ''Internal server error'')]) 500)"
  unfolding create_subscription_def Let_def bind_eval
  by (auto simp: io_return_def split: if_splits option.splits sum.splits
        intro: catch_fails_closed [OF fails_closed_subscription])

lemma portal_500:
  "\<exists>c \<in> set (snd (create_portal_session env fetch req)). raised fetch c \<Longrightarrow>
   fst (create_portal_session env fetch req) =
     Inr (json (JObj [(''error'', JStr ''Internal server error'')]) 500)"
  unfolding create_portal_session_def Let_def bind_eval
  by (auto simp: io_return_def split: if_splits option.splits sum.splits
        intro: catch_fails_closed [OF fails_closed_portal])

lemma send_email_500:
  "\<exists>c \<in> set (snd (send_email env fetch req)). raised fetch c \<Longrightarrow>
   fst (send_email env fetch req) =
     Inr (json (JObj [(''error'', JStr ''Internal server error'')]) 500)"
  unfolding send_email_def Let_def bind_eval
  by (auto simp: io_return_def split: if_splits option.splits sum.splits
        intro: catch_fails_closed [OF fails_closed_send])

text \<open>
  Claim C4. In each of the four handlers, when an upstream call of the run raises a
  transport-level exception, the response has status 500 and the body is exactly
  \<^verbatim>\<open>{"error":"Internal server error"}\<close>: a fixed text, the same for every exception, so
  nothing of the exception reaches it.
\<close>

theorem transport_failure_500:
  \<open>((\<exists>c \<in> set (snd (create_setup_intent env fetch req)). raised fetch c) \<longrightarrow>
      fst (create_setup_intent env fetch req) =
        Inr \<lparr>status = 500, headers = CORS_HEADERS @ [(''Content-Type'', ''application/json'')],
             body_text = Some ''{"error":"Internal server error"}''\<rparr>) \<and>
   ((\<exists>c \<in> set (snd (create_subscription str_pos env fetch req)). raised fetch c) \<longrightarrow>
      fst (create_subscription str_pos env fetch req) =
        Inr \<lparr>status = 500, headers = CORS_HEADERS @ [(''Content-Type'', ''application/json'')],
             body_text = Some ''{"error":"Internal server error"}''\<rparr>) \<and>
   ((\<exists>c \<in> set (snd (create_portal_session env fetch req)). raised fetch c) \<longrightarrow>
      fst (create_portal_session env fetch req) =
        Inr \<lparr>status = 500, headers = CORS_HEADERS @ [(''Content-Type'', ''application/json'')],
             body_text = Some ''{"error":"Internal server error"}''\<rparr>) \<and>
   ((\<exists>c \<in> set (snd (send_email env fetch req)). raised fetch c) \<longrightarrow>
      fst (send_email env fetch req) =
        Inr \<lparr>status = 500, headers = CORS_HEADERS @ [(''Content-Type'', ''application/json'')],
             body_text = Some ''{"error":"Internal server error"}''\<rparr>)\<close>
  using setup_intent_500 [of env fetch req] subscription_500 [of str_pos env fetch req]
        portal_500 [of env fetch req] send_email_500 [of env fetch req]
  by (simp only: internal_server_error_response) blast

theorem transport_failure_500_witness:
  \<open>fst (create_setup_intent (Some ''sk_test_1'') unreachable
          (post [(''email'', JStr ''pat@example.com''), (''userId'', JStr ''u1'')])) =
     Inr \<lparr>status = 500, headers = CORS_HEADERS @ [(''Content-Type'', ''application/json'')],
          body_text = Some ''{"error":"Internal server error"}''\<rparr> \<and>
   fst (create_subscription (\<lambda>s. False) (Some ''sk_test_1'') unreachable
          (post [(''customerId'', JStr ''cus_1''), (''priceId'', JStr ''price_1'')])) =
     Inr \<lparr>status = 500, headers = CORS_HEADERS @ [(''Content-Type'', ''application/json'')],
          body_text = Some ''{"error":"Internal server error"}''\<rparr> \<and>
   fst (create_portal_session (Some ''sk_test_1'') unreachable
          (post [(''customerId'', JStr ''cus_1''), (''returnUrl'', JStr ''https://example.com/account'')])) =
     Inr \<lparr>status = 500, headers = CORS_HEADERS @ [(''Content-Type'', ''application/json'')],
          body_text = Some ''{"error":"Internal server error"}''\<rparr> \<and>
   fst (send_email (Some ''re_1'') unreachable
          (post [(''type'', JStr ''welcome''), (''to'', JStr ''pat@example.com'')])) =
     Inr \<lparr>status = 500, headers = CORS_HEADERS @ [(''Content-Type'', ''application/json'')],
          body_text = Some ''{"error":"Internal server error"}''\<rparr>\<close>
proof -
  have a: "\<exists>c \<in> set (snd (create_setup_intent (Some ''sk_test_1'') unreachable
          (post [(''email'', JStr ''pat@example.com''), (''userId'', JStr ''u1'')]))). raised unreachable c"
    by (simp add: create_setup_intent_def create_setup_intent_try_def post_def env_or_empty_def
          stripePost_def URLSearchParams_toString_def io_defs unreachable_def raised_def
          internal_server_error_def)
  have b: "\<exists>c \<in> set (snd (create_subscription (\<lambda>s. False) (Some ''sk_test_1'') unreachable
          (post [(''customerId'', JStr ''cus_1''), (''priceId'', JStr ''price_1'')]))). raised unreachable c"
    by (simp add: create_subscription_def create_subscription_try_def post_def env_or_empty_def
          stripeGet_def interpolating_def io_defs unreachable_def raised_def
          internal_server_error_def)
  have c: "\<exists>c \<in> set (snd (create_portal_session (Some ''sk_test_1'') unreachable
          (post [(''customerId'', JStr ''cus_1''), (''returnUrl'', JStr ''https://example.com/account'')]))). raised unreachable c"
    by (simp add: create_portal_session_def create_portal_session_try_def post_def env_or_empty_def
          stripePost_def URLSearchParams_toString_def io_defs unreachable_def raised_def
          internal_server_error_def)
  have d: "\<exists>c \<in> set (snd (send_email (Some ''re_1'') unreachable
          (post [(''type'', JStr ''welcome''), (''to'', JStr ''pat@example.com'')]))). raised unreachable c"
    by (simp add: send_email_def send_email_try_def buildEmail_def interpolating_def post_def
          env_or_empty_def nullish_or_def nullish_def io_defs unreachable_def raised_def
          internal_server_error_def)
  note A = transport_failure_500 [of "Some ''sk_test_1''" unreachable
      "post [(''email'', JStr ''pat@example.com''), (''userId'', JStr ''u1'')]" "\<lambda>s. False",
      THEN conjunct1, THEN mp, OF a]
  note B = transport_failure_500 [of "Some ''sk_test_1''" unreachable
      "post [(''customerId'', JStr ''cus_1''), (''priceId'', JStr ''price_1'')]" "\<lambda>s. False",
      THEN conjunct2, THEN conjunct1, THEN mp, OF b]
  note C = transport_failure_500 [of "Some ''sk_test_1''" unreachable
      "post [(''customerId'', JStr ''cus_1''), (''returnUrl'', JStr ''https://example.com/account'')]"
      "\<lambda>s. False", THEN conjunct2, THEN conjunct2, THEN conjunct1, THEN mp, OF c]
  note D = transport_failure_500 [of "Some ''re_1''" unreachable
      "post [(''type'', JStr ''welcome''), (''to'', JStr ''pat@example.com'')]" "\<lambda>s. False",
      THEN conjunct2, THEN conjunct2, THEN conjunct2, THEN mp, OF d]
  show ?thesis
    by (intro conjI A B C D)
qed

subsection \<open>Required fields\<close>

lemma map_of_remove_key: "map_of (remove_key f kvs) k = (if k = f then None else map_of kvs k)"
  by (induction kvs) (auto simp: remove_key_def)

lemma required_response:
  \<open>json (JObj [(''error'', JStr ''email and userId are required'')]) 400 =
     \<lparr>status = 400, headers = CORS_HEADERS @ [(''Content-Type'', ''application/json'')],
      body_text = Some ''{"error":"email and userId are required"}''\<rparr>\<close>
  \<open>json (JObj [(''error'', JStr ''customerId and priceId are required'')]) 400 =
     \<lparr>status = 400, headers = CORS_HEADERS @ [(''Content-Type'', ''application/json'')],
      body_text = Some ''{"error":"customerId and priceId are required"}''\<rparr>\<close>
  \<open>json (JObj [(''error'', JStr ''customerId and returnUrl are required'')]) 400 =
     \<lparr>status = 400, headers = CORS_HEADERS @ [(''Content-Type'', ''application/json'')],
      body_text = Some ''{"error":"customerId and returnUrl are required"}''\<rparr>\<close>
  \<open>json (JObj [(''error'', JStr ''type and to are required'')]) 400 =
     \<lparr>status = 400, headers = CORS_HEADERS @ [(''Content-Type'', ''application/json'')],
      body_text = Some ''{"error":"type and to are required"}''\<rparr>\<close>
  by (simp_all add: json_def JSON_stringify_def quote_def quote_char_def)

lemma setup_intent_falsy:
  assumes "req_method req = ''POST''" "env = Some key" "key \<noteq> []"
    "map_of kvs f = Some v" "\<not> truthy v" "f = ''email'' \<or> f = ''userId''"
    "req_json req = Some body" "body = JObj kvs \<or> body = JObj (remove_key f kvs)"
  shows "create_setup_intent env fetch req =
           (Inr (json (JObj [(''error'', JStr ''email and userId are required'')]) 400), [])"
  using assms
  by (auto simp: create_setup_intent_def env_or_empty_def io_defs map_of_remove_key)

lemma subscription_falsy:
  assumes "req_method req = ''POST''" "env = Some key" "key \<noteq> []"
    "map_of kvs f = Some v" "\<not> truthy v" "f = ''customerId'' \<or> f = ''priceId''"
    "req_json req = Some body" "body = JObj kvs \<or> body = JObj (remove_key f kvs)"
  shows "create_subscription str_pos env fetch req =
           (Inr (json (JObj [(''error'', JStr ''customerId and priceId are required'')]) 400), [])"
  using assms
  by (auto simp: create_subscription_def env_or_empty_def io_defs map_of_remove_key)

lemma portal_falsy:
  assumes "req_method req = ''POST''" "env = Some key" "key \<noteq> []"
    "map_of kvs f = Some v" "\<not> truthy v" "f = ''customerId'' \<or> f = ''returnUrl''"
    "req_json req = Some body" "body = JObj kvs \<or> body = JObj (remove_key f kvs)"
  shows "create_portal_session env fetch req =
           (Inr (json (JObj [(''error'', JStr ''customerId and returnUrl are required'')]) 400), [])"
  using assms
  by (auto simp: create_portal_session_def env_or_empty_def io_defs map_of_remove_key)

lemma send_email_falsy:
  assumes "req_method req = ''POST''" "env = Some key" "key \<noteq> []"
    "map_of kvs f = Some v" "\<not> truthy v" "f = ''type'' \<or> f = ''to''"
    "req_json req = Some body" "body = JObj kvs \<or> body = JObj (remove_key f kvs)"
  shows "send_email env fetch req =
           (Inr (json (JObj [(''error'', JStr ''type and to are required'')]) 400), [])"
  using assms
  by (auto simp: send_email_def env_or_empty_def io_defs map_of_remove_key Let_def)

text \<open>
  Claim C9. In each of the four handlers, for a POST with the credential configured
  whose body is a mapping: when a required field is present with a falsy value (the
  empty string, null, false, zero), the handler returns the 400 missing-fields envelope
  and sends nothing upstream, and that is exactly what it returns for the same body
  with the field left out.
\<close>

theorem falsy_field_is_missing:
  assumes \<open>req_method req = ''POST''\<close> \<open>env = Some key\<close> \<open>key \<noteq> []\<close>
    and \<open>req_json req = Some (JObj kvs)\<close> \<open>map_of kvs f = Some v\<close> \<open>\<not> truthy v\<close>
  shows
   \<open>(f = ''email'' \<or> f = ''userId'' \<longrightarrow>
       create_setup_intent env fetch req =
         (Inr \<lparr>status = 400, headers = CORS_HEADERS @ [(''Content-Type'', ''application/json'')],
               body_text = Some ''{"error":"email and userId are required"}''\<rparr>, []) \<and>
       create_setup_intent env fetch (req\<lparr>req_json := Some (JObj (remove_key f kvs))\<rparr>) =
         create_setup_intent env fetch req) \<and>
    (f = ''customerId'' \<or> f = ''priceId'' \<longrightarrow>
       create_subscription str_pos env fetch req =
         (Inr \<lparr>status = 400, headers = CORS_HEADERS @ [(''Content-Type'', ''application/json'')],
               body_text = Some ''{"error":"customerId and priceId are required"}''\<rparr>, []) \<and>
       create_subscription str_pos env fetch (req\<lparr>req_json := Some (JObj (remove_key f kvs))\<rparr>) =
         create_subscription str_pos env fetch req) \<and>
    (f = ''customerId'' \<or> f = ''returnUrl'' \<longrightarrow>
       create_portal_session env fetch req =
         (Inr \<lparr>status = 400, headers = CORS_HEADERS @ [(''Content-Type'', ''application/json'')],
               body_text = Some ''{"error":"customerId and returnUrl are required"}''\<rparr>, []) \<and>
       create_portal_session env fetch (req\<lparr>req_json := Some (JObj (remove_key f kvs))\<rparr>) =
         create_portal_session env fetch req) \<and>
    (f = ''type'' \<or> f = ''to'' \<longrightarrow>
       send_email env fetch req =
         (Inr \<lparr>status = 400, headers = CORS_HEADERS @ [(''Content-Type'', ''application/json'')],
               body_text = Some ''{"error":"type and to are required"}''\<rparr>, []) \<and>
       send_email env fetch (req\<lparr>req_json := Some (JObj (remove_key f kvs))\<rparr>) =
         send_email env fetch req)\<close>
proof -
  let ?req' = "req\<lparr>req_json := Some (JObj (remove_key f kvs))\<rparr>"
  have m': "req_method ?req' = ''POST''" and j': "req_json ?req' = Some (JObj (remove_key f kvs))"
    using assms(1) by simp_all
  note pre = assms(2,3,5,6)
  have 1: "create_setup_intent env fetch req =
             (Inr (json (JObj [(''error'', JStr ''email and userId are required'')]) 400), []) \<and>
           create_setup_intent env fetch ?req' = create_setup_intent env fetch req"
    if "f = ''email'' \<or> f = ''userId''"
    using setup_intent_falsy [OF assms(1) pre that assms(4)]
          setup_intent_falsy [OF m' pre that j'] by simp
  have 2: "create_subscription str_pos env fetch req =
             (Inr (json (JObj [(''error'', JStr ''customerId and priceId are required'')]) 400), []) \<and>
           create_subscription str_pos env fetch ?req' = create_subscription str_pos env fetch req"
    if "f = ''customerId'' \<or> f = ''priceId''"
    using subscription_falsy [OF assms(1) pre that assms(4)]
          subscription_falsy [OF m' pre that j'] by simp
  have 3: "create_portal_session env fetch req =
             (Inr (json (JObj [(''error'', JStr ''customerId and returnUrl are required'')]) 400), []) \<and>
           create_portal_session env fetch ?req' = create_portal_session env fetch req"
    if "f = ''customerId'' \<or> f = ''returnUrl''"
    using portal_falsy [OF assms(1) pre that assms(4)]
          portal_falsy [OF m' pre that j'] by simp
  have 4: "send_email env fetch req =
             (Inr (json (JObj [(''error'', JStr ''type and to are required'')]) 400), []) \<and>
           send_email env fetch ?req' = send_email env fetch req"
    if "f = ''type'' \<or> f = ''to''"
    using send_email_falsy [OF assms(1) pre that assms(4)]
          send_email_falsy [OF m' pre that j'] by simp
  from 1 2 3 4 show ?thesis
    unfolding required_response by blast
qed

theorem falsy_field_is_missing_witness:
  \<open>create_setup_intent (Some ''sk_test_1'') unreachable
      (post [(''email'', JStr ''''), (''userId'', JStr ''u1'')]) =
     (Inr \<lparr>status = 400, headers = CORS_HEADERS @ [(''Content-Type'', ''application/json'')],
           body_text = Some ''{"error":"email and userId are required"}''\<rparr>, []) \<and>
   create_subscription (\<lambda>s. False) (Some ''sk_test_1'') unreachable
      (post [(''customerId'', JStr ''cus_1''), (''priceId'', JNull)]) =
     (Inr \<lparr>status = 400, headers = CORS_HEADERS @ [(''Content-Type'', ''application/json'')],
           body_text = Some ''{"error":"customerId and priceId are required"}''\<rparr>, []) \<and>
   create_portal_session (Some ''sk_test_1'') unreachable
      (post [(''customerId'', JStr ''cus_1''), (''returnUrl'', JStr '''')]) =
     (Inr \<lparr>status = 400, headers = CORS_HEADERS @ [(''Content-Type'', ''application/json'')],
           body_text = Some ''{"error":"customerId and returnUrl are required"}''\<rparr>, []) \<and>
   send_email (Some ''re_1'') unreachable
      (post [(''type'', JStr ''welcome''), (''to'', JNum ''0'')]) =
     (Inr \<lparr>status = 400, headers = CORS_HEADERS @ [(''Content-Type'', ''application/json'')],
           body_text = Some ''{"error":"type and to are required"}''\<rparr>, [])\<close>
proof -
  note A = falsy_field_is_missing [of
      "post [(''email'', JStr ''''), (''userId'', JStr ''u1'')]" "Some ''sk_test_1''" "''sk_test_1''"
      "[(''email'', JStr ''''), (''userId'', JStr ''u1'')]" "''email''" "JStr ''''"
      unreachable "\<lambda>s. False"]
  note B = falsy_field_is_missing [of
      "post [(''customerId'', JStr ''cus_1''), (''priceId'', JNull)]" "Some ''sk_test_1''" "''sk_test_1''"
      "[(''customerId'', JStr ''cus_1''), (''priceId'', JNull)]" "''priceId''" JNull
      unreachable "\<lambda>s. False"]
  note C = falsy_field_is_missing [of
      "post [(''customerId'', JStr ''cus_1''), (''returnUrl'', JStr '''')]" "Some ''sk_test_1''" "''sk_test_1''"
      "[(''customerId'', JStr ''cus_1''), (''returnUrl'', JStr '''')]" "''returnUrl''" "JStr ''''"
      unreachable "\<lambda>s. False"]
  note D = falsy_field_is_missing [of
      "post [(''type'', JStr ''welcome''), (''to'', JNum ''0'')]" "Some ''re_1''" "''re_1''"
      "[(''type'', JStr ''welcome''), (''to'', JNum ''0'')]" "''to''" "JNum ''0''"
      unreachable "\<lambda>s. False"]
  show ?thesis
    using A B C D by (simp add: post_def)
qed

subsection \<open>Email rendering\<close>




























subsection \<open>Upstream errors in create-subscription\<close>

lemma stripeGet_eq:
  "stripeGet fetch key path =
     (case fetch (stripe_get key path) of
        Inl e \<Rightarrow> (Inl e, [stripe_get key path])
      | Inr res \<Rightarrow> (res_json res, [stripe_get key path]))"
  by (simp add: stripeGet_def stripe_get_def io_defs split: sum.splits)

lemma stripePost_eq:
  "stripePost fetch key path params =
     (case URLSearchParams_toString params of
        Inl e \<Rightarrow> (Inl e, [])
      | Inr body \<Rightarrow>
          (case fetch (stripe_post key path body) of
             Inl e \<Rightarrow> (Inl e, [stripe_post key path body])
           | Inr res \<Rightarrow> (res_json res, [stripe_post key path body])))"
  by (simp add: stripePost_def stripe_post_def io_defs split: sum.splits)

lemma interpolating_Inr: "interpolating v f = Inr x \<longleftrightarrow> (\<exists>s. js_to_string v = Inr s \<and> x = f s)"
  by (auto simp: interpolating_def split: sum.splits)

lemma truthy_message: "truthy err \<Longrightarrow> \<exists>m. get_prop err ''message'' = Inr m"
  by (cases err) auto

lemma quiet_return [simp]: "quiet (io_return x)"
  by (simp add: quiet_def io_return_def)

lemma quiet_eval [simp]: "quiet (io_eval x)"
  by (simp add: quiet_def io_eval_def)

lemma quiet_bind: "quiet m \<Longrightarrow> (\<And>x. quiet (f x)) \<Longrightarrow> quiet (io_bind m f)"
proof (cases m)
  case (Pair r sent)
  assume m: "quiet m" and f: "\<And>x. quiet (f x)"
  show ?thesis
  proof (cases r)
    case (Inl e)
    with Pair m show ?thesis by (simp add: quiet_def io_bind_def)
  next
    case (Inr x)
    obtain r' sent' where fx: "f x = (r', sent')" by (cases "f x")
    with f [of x] m Pair Inr show ?thesis
      by (auto simp: quiet_def io_bind_def)
  qed
qed

lemma quiet_bind_eval: "(\<And>x. v = Inr x \<Longrightarrow> quiet (f x)) \<Longrightarrow> quiet (io_bind (io_eval v) f)"
  by (cases v) (simp_all add: bind_eval quiet_def)

lemma quiet_if: "quiet m \<Longrightarrow> quiet n \<Longrightarrow> quiet (if b then m else n)"
  by simp

lemma quiet_stripeGet: "path \<noteq> ''subscriptions'' \<Longrightarrow> quiet (stripeGet fetch key path)"
  by (auto simp: quiet_def stripeGet_eq stripe_get_def subscription_url_def split: sum.splits)

lemma stops_return [simp]: "stops_on_error fetch (io_return x)"
  by (simp add: stops_on_error_def io_return_def)

lemma stops_bind:
  "quiet m \<Longrightarrow> (\<And>x. stops_on_error fetch (f x)) \<Longrightarrow> stops_on_error fetch (io_bind m f)"
proof (cases m)
  case (Pair r sent)
  assume m: "quiet m" and f: "\<And>x. stops_on_error fetch (f x)"
  show ?thesis
  proof (cases r)
    case (Inl e)
    with Pair m show ?thesis by (simp add: quiet_def stops_on_error_def io_bind_def)
  next
    case (Inr x)
    obtain r' sent' where fx: "f x = (r', sent')" by (cases "f x")
    from m Pair have q: "\<forall>c \<in> set sent. url c \<noteq> subscription_url"
      by (simp add: quiet_def)
    have "io_bind m f = (r', sent @ sent')"
      using Pair Inr fx by (simp add: io_bind_def)
    moreover have "r' = Inr (json (JObj [(''error'', upstream_message err ''Failed to create subscription'')]) 502) \<and>
        last (sent @ sent') = c"
      if "c \<in> set (sent @ sent')" "url c = subscription_url" "error_of fetch c = Some err" for c err
    proof -
      from that q have c: "c \<in> set sent'" by auto
      with f [of x] fx that have
        "r' = Inr (json (JObj [(''error'', upstream_message err ''Failed to create subscription'')]) 502)"
        "last sent' = c"
        by (auto simp: stops_on_error_def)
      moreover from c have "sent' \<noteq> []" by auto
      ultimately show ?thesis by simp
    qed
    ultimately show ?thesis
      by (simp add: stops_on_error_def)
  qed
qed

lemma stops_bind_eval:
  "(\<And>x. v = Inr x \<Longrightarrow> stops_on_error fetch (f x)) \<Longrightarrow>
   stops_on_error fetch (io_bind (io_eval v) f)"
  by (cases v) (simp_all add: bind_eval stops_on_error_def)

lemma stops_if:
  "stops_on_error fetch m \<Longrightarrow> stops_on_error fetch n \<Longrightarrow> stops_on_error fetch (if b then m else n)"
  by simp

lemma stops_subscribe:
  "stops_on_error fetch
     (io_bind (stripePost fetch key ''subscriptions'' params) (\<lambda>subscription.
      io_bind (io_eval (get_prop subscription ''error'')) (\<lambda>subscription_error.
      if truthy subscription_error then
        io_bind (io_eval (get_prop subscription_error ''message'')) (\<lambda>message.
        io_return (json (JObj [(''error'', nullish_or message (JStr ''Failed to create subscription''))]) 502))
      else
      io_bind (io_eval (get_prop subscription ''id'')) (\<lambda>subscription_id.
      io_bind (io_eval (get_prop subscription ''status'')) (\<lambda>subscription_status.
      io_return (json (JObj [(''subscriptionId'', subscription_id),
                             (''status'', subscription_status)]) 200))))))"
  unfolding stops_on_error_def stripePost_eq bind_eval
  by (auto simp: io_bind_def io_return_def io_eval_def error_of_def upstream_message_def
        split: sum.splits js.splits option.splits if_splits dest: truthy_message)

lemma stops_try:
  "stops_on_error fetch (create_subscription_try str_pos fetch key customerId priceId)"
  unfolding create_subscription_try_def
  by (intro stops_subscribe stops_bind_eval stops_bind stops_if stops_return quiet_bind_eval
        quiet_bind quiet_if quiet_eval quiet_return quiet_stripeGet)
     (auto simp: interpolating_Inr)

lemma error_ofD:
  assumes "error_of fetch c = Some err"
  shows "\<exists>res kvs. fetch c = Inr res \<and> res_json res = Inr (JObj kvs) \<and> map_of kvs ''error'' = Some err \<and> truthy err"
  using assms
  by (auto simp: error_of_def split: sum.splits js.splits option.splits if_splits)

lemma customer_error_404:
  assumes "js_to_string customerId = Inr cid"
    and "error_of fetch (stripe_get key (''customers/'' @ cid)) = Some err"
  shows "create_subscription_try str_pos fetch key customerId priceId =
           (Inr (json (JObj [(''error'', upstream_message err ''Customer not found'')]) 404),
            [stripe_get key (''customers/'' @ cid)])"
proof -
  from error_ofD [OF assms(2)] obtain res kvs where
    "fetch (stripe_get key (''customers/'' @ cid)) = Inr res"
    "res_json res = Inr (JObj kvs)" "map_of kvs ''error'' = Some err" "truthy err"
    by blast
  with truthy_message [of err] assms(1) show ?thesis
    by (auto simp: create_subscription_try_def interpolating_def stripeGet_eq bind_eval io_bind_def
          io_return_def io_eval_def upstream_message_def)
qed

lemma catch_Inr: "fst m = Inr x \<Longrightarrow> io_catch m h = m"
  by (cases m) (simp add: io_catch_def)

lemma snd_catch_internal [simp]: "snd (io_catch m internal_server_error) = snd m"
  by (cases m; cases "fst m") (auto simp: io_catch_def internal_server_error_def io_return_def)

lemma stops_catch:
  "stops_on_error fetch m \<Longrightarrow> stops_on_error fetch (io_catch m internal_server_error)"
  unfolding stops_on_error_def
proof (intro ballI allI impI)
  fix c err
  assume m: "\<forall>c\<in>set (snd m). \<forall>err. url c = subscription_url \<and> error_of fetch c = Some err \<longrightarrow>
       fst m = Inr (json (JObj [(''error'', upstream_message err ''Failed to create subscription'')]) 502) \<and>
       last (snd m) = c"
    and c: "c \<in> set (snd (io_catch m internal_server_error))"
    and e: "url c = subscription_url \<and> error_of fetch c = Some err"
  from c have "c \<in> set (snd m)" by simp
  with m e have *: "fst m = Inr (json (JObj [(''error'', upstream_message err ''Failed to create subscription'')]) 502)"
    "last (snd m) = c" by blast+
  from catch_Inr [OF *(1)] * show
    "fst (io_catch m internal_server_error) =
       Inr (json (JObj [(''error'', upstream_message err ''Failed to create subscription'')]) 502) \<and>
     last (snd (io_catch m internal_server_error)) = c"
    by simp
qed

lemma stops_handler: "stops_on_error fetch (create_subscription str_pos env fetch req)"
proof -
  have silent: "stops_on_error fetch (Inl e, [])" for e
    by (simp add: stops_on_error_def)
  show ?thesis
    unfolding create_subscription_def Let_def bind_eval
    by (auto simp: silent stops_catch stops_try split: option.splits sum.splits)
qed

text \<open>
  Claim C1, as amended. In the create-subscription handler, when the customer fetch
  (sent for the string \<open>cid\<close> of the customer identifier) returns a mapping whose
  \<^verbatim>\<open>error\<close> field is truthy, the handler sends nothing more and returns a 404 envelope; when the subscription creation returns such a mapping, it was
  the last request sent and the handler returns a 502 envelope. Either envelope
  carries the message of the upstream error, or the fallback string of that step when
  the message is null or undefined.
\<close>

theorem upstream_error_short_circuit:
  \<open>(req_method req = ''POST'' \<and> env = Some key \<and> key \<noteq> [] \<and> req_json req = Some (JObj kvs) \<and>
    map_of kvs ''customerId'' = Some customerId \<and> truthy customerId \<and>
    map_of kvs ''priceId'' = Some priceId \<and> truthy priceId \<and>
    js_to_string customerId = Inr cid \<and>
    error_of fetch (stripe_get key (''customers/'' @ cid)) = Some err \<longrightarrow>
      create_subscription str_pos env fetch req =
        (Inr (json (JObj [(''error'', upstream_message err ''Customer not found'')]) 404),
         [stripe_get key (''customers/'' @ cid)])) \<and>
   (\<forall>c \<in> set (snd (create_subscription str_pos env fetch req)). \<forall>err.
      url c = subscription_url \<and> error_of fetch c = Some err \<longrightarrow>
        fst (create_subscription str_pos env fetch req) =
          Inr (json (JObj [(''error'', upstream_message err ''Failed to create subscription'')]) 502) \<and>
        last (snd (create_subscription str_pos env fetch req)) = c)\<close>
  (is "(?P \<longrightarrow> ?A) \<and> ?B")
proof (intro conjI impI)
  assume p: ?P
  then have run: "create_subscription str_pos env fetch req =
      io_catch (create_subscription_try str_pos fetch key customerId priceId) internal_server_error"
    by (simp add: create_subscription_def env_or_empty_def bind_eval)
  from p have "js_to_string customerId = Inr cid"
    "error_of fetch (stripe_get key (''customers/'' @ cid)) = Some err"
    by simp_all
  from customer_error_404 [OF this, of str_pos priceId] show ?A
    unfolding run by (simp add: io_catch_def)
next
  from stops_handler [of fetch str_pos env req] show ?B
    unfolding stops_on_error_def .
qed

lemmas run_defs =
  stripeGet_eq stripePost_eq bind_eval io_bind_def io_return_def io_eval_def io_catch_def
  opt_chain_def nullish_def nullish_or_def env_or_empty_def post_def stripe_get_def stripe_post_def
  reply_def reply_error_def internal_server_error_def interpolating_def Let_def

lemmas form_defs =
  URLSearchParams_toString_def form_component_def form_byte_def hex_upper_def

lemmas body_defs = json_def JSON_stringify_def quote_def quote_char_def

text \<open>
  The claim as first stated fails twice. The payment-methods listing may return a
  mapping with an \<^verbatim>\<open>error\<close> field: the handler does not look at it and answers 400
  \<^verbatim>\<open>No payment method found\<close>, not 502 with the upstream message. And a mapping whose
  \<^verbatim>\<open>error\<close> field is present but falsy is no error to the handler, which goes on to the
  next call.
\<close>

theorem upstream_error_short_circuit_counterexample:
  \<open>error_of listing_fails (stripe_get ''sk_test_1'' ''payment_methods?customer=cus_1&type=card'') =
     Some (JObj [(''message'', JStr ''Rate limit exceeded'')]) \<and>
   create_subscription (\<lambda>s. False) (Some ''sk_test_1'') listing_fails
       (post [(''customerId'', JStr ''cus_1''), (''priceId'', JStr ''price_1'')]) =
     (Inr \<lparr>status = 400, headers = CORS_HEADERS @ [(''Content-Type'', ''application/json'')],
           body_text = Some ''{"error":"No payment method found for this customer. Please update your payment method first."}''\<rparr>,
      [stripe_get ''sk_test_1'' ''customers/cus_1'',
       stripe_get ''sk_test_1'' ''payment_methods?customer=cus_1&type=card'']) \<and>
   create_subscription (\<lambda>s. False) (Some ''sk_test_1'') empty_error
       (post [(''customerId'', JStr ''cus_1''), (''priceId'', JStr ''price_1'')]) =
     (Inr \<lparr>status = 200, headers = CORS_HEADERS @ [(''Content-Type'', ''application/json'')],
           body_text = Some ''{"subscriptionId":"sub_1","status":"active"}''\<rparr>,
      [stripe_get ''sk_test_1'' ''customers/cus_1'',
       stripe_post ''sk_test_1'' ''subscriptions''
         ''customer=cus_1&items%5B0%5D%5Bprice%5D=price_1&default_payment_method=pm_1&payment_behavior=default_incomplete&expand%5B%5D=latest_invoice.payment_intent''])\<close>
proof (intro conjI)
  show \<open>error_of listing_fails (stripe_get ''sk_test_1'' ''payment_methods?customer=cus_1&type=card'') =
     Some (JObj [(''message'', JStr ''Rate limit exceeded'')])\<close>
    by (simp add: error_of_def listing_fails_def stripe_get_def reply_error_def)
  show \<open>create_subscription (\<lambda>s. False) (Some ''sk_test_1'') listing_fails
       (post [(''customerId'', JStr ''cus_1''), (''priceId'', JStr ''price_1'')]) =
     (Inr \<lparr>status = 400, headers = CORS_HEADERS @ [(''Content-Type'', ''application/json'')],
           body_text = Some ''{"error":"No payment method found for this customer. Please update your payment method first."}''\<rparr>,
      [stripe_get ''sk_test_1'' ''customers/cus_1'',
       stripe_get ''sk_test_1'' ''payment_methods?customer=cus_1&type=card''])\<close>
    by (simp add: create_subscription_def create_subscription_try_def listing_fails_def run_defs body_defs)
  show \<open>create_subscription (\<lambda>s. False) (Some ''sk_test_1'') empty_error
       (post [(''customerId'', JStr ''cus_1''), (''priceId'', JStr ''price_1'')]) =
     (Inr \<lparr>status = 200, headers = CORS_HEADERS @ [(''Content-Type'', ''application/json'')],
           body_text = Some ''{"subscriptionId":"sub_1","status":"active"}''\<rparr>,
      [stripe_get ''sk_test_1'' ''customers/cus_1'',
       stripe_post ''sk_test_1'' ''subscriptions''
         ''customer=cus_1&items%5B0%5D%5Bprice%5D=price_1&default_payment_method=pm_1&payment_behavior=default_incomplete&expand%5B%5D=latest_invoice.payment_intent''])\<close>
    by (simp add: create_subscription_def create_subscription_try_def empty_error_def
          form_defs run_defs body_defs)
qed

theorem upstream_error_short_circuit_witness:
  \<open>create_subscription (\<lambda>s. False) (Some ''sk_test_1'') customer_missing
       (post [(''customerId'', JStr ''cus_1''), (''priceId'', JStr ''price_1'')]) =
     (Inr \<lparr>status = 404, headers = CORS_HEADERS @ [(''Content-Type'', ''application/json'')],
           body_text = Some ''{"error":"No such customer: cus_1"}''\<rparr>,
      [stripe_get ''sk_test_1'' ''customers/cus_1'']) \<and>
   fst (create_subscription (\<lambda>s. False) (Some ''sk_test_1'') price_missing
       (post [(''customerId'', JStr ''cus_1''), (''priceId'', JStr ''price_1'')])) =
     Inr \<lparr>status = 502, headers = CORS_HEADERS @ [(''Content-Type'', ''application/json'')],
          body_text = Some ''{"error":"No such price: price_1"}''\<rparr> \<and>
   last (snd (create_subscription (\<lambda>s. False) (Some ''sk_test_1'') price_missing
       (post [(''customerId'', JStr ''cus_1''), (''priceId'', JStr ''price_1'')]))) =
     stripe_post ''sk_test_1'' ''subscriptions''
         ''customer=cus_1&items%5B0%5D%5Bprice%5D=price_1&default_payment_method=pm_1&payment_behavior=default_incomplete&expand%5B%5D=latest_invoice.payment_intent''\<close>
proof -
  let ?req = "post [(''customerId'', JStr ''cus_1''), (''priceId'', JStr ''price_1'')]"
  let ?c = "stripe_post ''sk_test_1'' ''subscriptions''
         ''customer=cus_1&items%5B0%5D%5Bprice%5D=price_1&default_payment_method=pm_1&payment_behavior=default_incomplete&expand%5B%5D=latest_invoice.payment_intent''"
  have e1: "error_of customer_missing (stripe_get ''sk_test_1'' (''customers/'' @ ''cus_1'')) =
              Some (JObj [(''message'', JStr ''No such customer: cus_1'')])"
    by (simp add: error_of_def customer_missing_def reply_error_def)
  have m1: \<open>json (JObj [(''error'', upstream_message (JObj [(''message'', JStr ''No such customer: cus_1'')]) ''Customer not found'')]) 404 =
      \<lparr>status = 404, headers = CORS_HEADERS @ [(''Content-Type'', ''application/json'')],
           body_text = Some ''{"error":"No such customer: cus_1"}''\<rparr>\<close>
    by (simp add: upstream_message_def nullish_or_def nullish_def body_defs)
  from upstream_error_short_circuit [where req = ?req and env = "Some ''sk_test_1''"
      and key = "''sk_test_1''" and kvs = "[(''customerId'', JStr ''cus_1''), (''priceId'', JStr ''price_1'')]"
      and customerId = "JStr ''cus_1''" and priceId = "JStr ''price_1''" and cid = "''cus_1''"
      and fetch = customer_missing and err = "JObj [(''message'', JStr ''No such customer: cus_1'')]"
      and str_pos = "\<lambda>s. False", THEN conjunct1] e1
  have A: "create_subscription (\<lambda>s. False) (Some ''sk_test_1'') customer_missing ?req =
      (Inr (json (JObj [(''error'', upstream_message (JObj [(''message'', JStr ''No such customer: cus_1'')]) ''Customer not found'')]) 404),
       [stripe_get ''sk_test_1'' ''customers/cus_1''])"
    by (simp add: post_def)
  have sent: "?c \<in> set (snd (create_subscription (\<lambda>s. False) (Some ''sk_test_1'') price_missing ?req))"
    by (simp add: create_subscription_def create_subscription_try_def price_missing_def
          form_defs run_defs)
  have e2: "url ?c = subscription_url \<and>
            error_of price_missing ?c = Some (JObj [(''message'', JStr ''No such price: price_1'')])"
    by (simp add: error_of_def price_missing_def reply_error_def stripe_post_def
          subscription_url_def)
  have m2: \<open>json (JObj [(''error'', upstream_message (JObj [(''message'', JStr ''No such price: price_1'')]) ''Failed to create subscription'')]) 502 =
      \<lparr>status = 502, headers = CORS_HEADERS @ [(''Content-Type'', ''application/json'')],
           body_text = Some ''{"error":"No such price: price_1"}''\<rparr>\<close>
    by (simp add: upstream_message_def nullish_or_def nullish_def body_defs)
  note B = upstream_error_short_circuit [where req = ?req and env = "Some ''sk_test_1''"
      and fetch = price_missing and str_pos = "\<lambda>s. False",
      THEN conjunct2, THEN bspec, OF sent, THEN spec, THEN mp, OF e2]
  from A B show ?thesis
    unfolding m1 m2 by (intro conjI) simp_all
qed

subsection \<open>Payment-method resolution\<close>

lemma decimal_digits: "set (decimal n) \<subseteq> set ''0123456789''"
proof (induction n rule: decimal.induct)
  case (1 n)
  have d: "decimal_digit k \<in> set ''0123456789''" if "k < 10" for k
  proof -
    from that have "k \<in> {0, 1, 2, 3, 4, 5, 6, 7, 8, 9}" by auto
    then show ?thesis by (auto simp: decimal_digit_def)
  qed
  show ?case
  proof (cases "n < 10")
    case True
    with d [of n] show ?thesis by (subst decimal.simps) simp
  next
    case False
    with 1 d [of "n mod 10"] show ?thesis by (subst decimal.simps) auto
  qed
qed

lemma decimal_nonempty: "decimal n \<noteq> []"
  by (subst decimal.simps) simp

lemma decimal_zero: "decimal n = ''0'' \<longleftrightarrow> n = 0"
proof (cases "n < 10")
  case True
  then have "n \<in> {0, 1, 2, 3, 4, 5, 6, 7, 8, 9}" by auto
  then show ?thesis
    by (subst decimal.simps) (auto simp: decimal_digit_def)
next
  case False
  then have "decimal n = decimal (n div 10) @ [decimal_digit (n mod 10)]"
    by (subst decimal.simps) simp
  with decimal_nonempty [of "n div 10"] False show ?thesis
    by (cases "decimal (n div 10)") auto
qed

lemma num_positive_decimal: "num_positive (decimal n) \<longleftrightarrow> 0 < n"
proof -
  from decimal_digits [of n] have "CHR ''N'' \<notin> set (decimal n)" "CHR ''-'' \<notin> set (decimal n)"
    by auto
  then have "decimal n \<noteq> ''NaN''" "take 1 (decimal n) \<noteq> ''-''"
    by (auto simp: take_Suc_conv_app_nth dest: in_set_takeD) (cases "decimal n"; auto)+
  then show ?thesis
    by (simp add: num_positive_def decimal_zero)
qed

lemma try_subscribe:
  "create_subscription_try str_pos fetch STRIPE_SECRET_KEY customerId priceId =
     io_bind (io_eval (interpolating customerId (\<lambda>id. ''customers/'' @ id))) (\<lambda>customer_path.
     io_bind (stripeGet fetch STRIPE_SECRET_KEY customer_path) (\<lambda>customer.
     io_bind (io_eval (get_prop customer ''error'')) (\<lambda>customer_error.
     if truthy customer_error then
       io_bind (io_eval (get_prop customer_error ''message'')) (\<lambda>message.
       io_return (json (JObj [(''error'', nullish_or message (JStr ''Customer not found''))]) 404))
     else
     io_bind (io_eval (get_prop customer ''invoice_settings'')) (\<lambda>invoice_settings.
     io_bind (io_eval (opt_chain invoice_settings ''default_payment_method'')) (\<lambda>default_payment_method.
     io_bind
       (if \<not> truthy default_payment_method then
          io_bind (io_eval (interpolating customerId
                     (\<lambda>id. ''payment_methods?customer='' @ id @ ''&type=card''))) (\<lambda>listing_path.
          io_bind (stripeGet fetch STRIPE_SECRET_KEY listing_path) (\<lambda>pms.
          io_bind (io_eval (get_prop pms ''data'')) (\<lambda>data.
          io_bind (io_eval (opt_chain data ''length'')) (\<lambda>len.
          io_bind (io_eval (js_gt_zero str_pos len)) (\<lambda>positive.
          if positive then
            io_bind (io_eval (get_index data 0)) (\<lambda>first.
            io_eval (get_prop first ''id''))
          else io_return default_payment_method)))))
        else io_return default_payment_method) (\<lambda>paymentMethodId.
     if \<not> truthy paymentMethodId then
       io_return (json (JObj [(''error'',
         JStr ''No payment method found for this customer. Please update your payment method first.'')]) 400)
     else subscribe fetch STRIPE_SECRET_KEY customerId priceId paymentMethodId))))))"
  by (simp only: create_subscription_try_def subscribe_def)

lemma subscribe_sent:
  assumes "URLSearchParams_toString (subscription_params customerId priceId paymentMethodId) = Inr body"
  shows "snd (subscribe fetch key customerId priceId paymentMethodId) =
           [stripe_post key ''subscriptions'' body]"
  using assms
  unfolding subscribe_def subscription_params_def stripePost_eq bind_eval
  by (auto simp: io_bind_def io_return_def io_eval_def split: sum.splits prod.splits)

lemma subscribe_throws:
  assumes "URLSearchParams_toString (subscription_params customerId priceId paymentMethodId) = Inl e"
  shows "subscribe fetch key customerId priceId paymentMethodId = (Inl e, [])"
  using assms
  unfolding subscribe_def subscription_params_def stripePost_eq
  by (simp add: io_bind_def)

lemma subscribe_creates:
  "creates_subscription
     (io_catch (fst (subscribe fetch key customerId priceId paymentMethodId),
                earlier @ snd (subscribe fetch key customerId priceId paymentMethodId))
        internal_server_error)
     earlier key customerId priceId paymentMethodId"
proof (cases "URLSearchParams_toString (subscription_params customerId priceId paymentMethodId)")
  case (Inl e)
  from subscribe_throws [OF this, of fetch key] Inl show ?thesis
    by (simp add: creates_subscription_def io_catch_def internal_server_error_def io_return_def
          internal_server_error_response)
next
  case (Inr body)
  from subscribe_sent [OF this, of fetch key] Inr show ?thesis
    by (simp add: creates_subscription_def)
qed

lemma io_bind_Inr: "io_bind (Inr x, sent) f = (fst (f x), sent @ snd (f x))"
  by (simp add: io_bind_def split: prod.splits)

lemma io_bind_Inl: "io_bind (Inl e, sent) f = (Inl e, sent)"
  by (simp add: io_bind_def)

lemma default_payment_method_read:
  "opt_chain (case map_of ckvs ''invoice_settings'' of None \<Rightarrow> JUndefined | Some v \<Rightarrow> v)
     ''default_payment_method'' = Inr (default_payment_method_of (JObj ckvs))"
proof (cases "map_of ckvs ''invoice_settings''")
  case None
  then show ?thesis by (simp add: opt_chain_def nullish_def default_payment_method_of_def)
next
  case (Some v)
  then show ?thesis
    by (cases v) (simp_all add: opt_chain_def nullish_def default_payment_method_of_def)
qed

lemma listing_read:
  assumes "is_listing pms" "\<not> truthy dpm"
  shows "\<exists>pm. io_bind (io_eval (get_prop pms ''data'')) (\<lambda>data.
               io_bind (io_eval (opt_chain data ''length'')) (\<lambda>len.
               io_bind (io_eval (js_gt_zero str_pos len)) (\<lambda>positive.
               if positive then
                 io_bind (io_eval (get_index data 0)) (\<lambda>first.
                 io_eval (get_prop first ''id''))
               else io_return dpm))) = (Inr pm, []) \<and>
              (truthy pm \<longleftrightarrow> truthy (first_listed_id pms)) \<and>
              (truthy pm \<longrightarrow> pm = first_listed_id pms)"
proof -
  from assms(1) obtain pkvs where pms: "pms = JObj pkvs"
    by (cases pms) (auto simp: is_listing_def)
  show ?thesis
  proof (cases "map_of pkvs ''data''")
    case None
    with pms assms(2) show ?thesis
      by (simp add: io_bind_Inr opt_chain_def nullish_def io_return_def io_eval_def
            first_listed_id_def)
  next
    case (Some data)
    with assms(1) pms obtain xs where data: "data = JArr xs"
      and objs: "list_all (\<lambda>x. case x of JObj pm \<Rightarrow> True | _ \<Rightarrow> False) xs"
      by (cases data) (auto simp: is_listing_def)
    show ?thesis
    proof (cases xs)
      case Nil
      with pms Some data assms(2) show ?thesis
        by (simp add: io_bind_Inr opt_chain_def nullish_def io_return_def io_eval_def
              first_listed_id_def num_positive_decimal)
    next
      case (Cons x rest)
      with objs obtain pm where "x = JObj pm" by (cases x) auto
      with Cons pms Some data show ?thesis
        by (simp add: io_bind_Inr opt_chain_def nullish_def io_return_def io_eval_def
              first_listed_id_def num_positive_decimal)
    qed
  qed
qed

lemma no_payment_method_response:
  \<open>json (JObj [(''error'',
      JStr ''No payment method found for this customer. Please update your payment method first.'')]) 400 =
    \<lparr>status = 400, headers = CORS_HEADERS @ [(''Content-Type'', ''application/json'')],
     body_text = Some ''{"error":"No payment method found for this customer. Please update your payment method first."}''\<rparr>\<close>
  by (simp add: json_def JSON_stringify_def quote_def quote_char_def)

lemma no_truthy_error:
  assumes "error_of fetch c = None" "fetch c = Inr res" "res_json res = Inr (JObj kvs)"
  shows "\<not> truthy (case map_of kvs ''error'' of None \<Rightarrow> JUndefined | Some v \<Rightarrow> v)"
  using assms by (auto simp: error_of_def split: option.splits if_splits)

text \<open>
  Claim C2. Take a POST to create-subscription with the credential configured, a body
  with truthy \<^verbatim>\<open>customerId\<close> and \<^verbatim>\<open>priceId\<close>, and a customer fetch, sent for the string
  \<open>cid\<close> of the customer identifier, that returns a mapping without error. If the
  customer's \<^verbatim>\<open>invoice_settings.default_payment_method\<close> is present (truthy), the handler
  goes on to create the subscription with it, and the payment methods are not listed.
  Otherwise the handler lists the customer's payment methods of type card; when the
  listing comes back, it goes on to create the subscription with the \<^verbatim>\<open>id\<close> of the first
  entry if there is one, and if there is none it returns the 400 envelope
  \<^verbatim>\<open>No payment method found ...\<close> after these two requests, without a third.
\<close>

theorem payment_method_resolution:
  assumes \<open>req_method req = ''POST''\<close> \<open>env = Some key\<close> \<open>key \<noteq> []\<close>
    and \<open>req_json req = Some (JObj kvs)\<close>
    and \<open>map_of kvs ''customerId'' = Some customerId\<close> \<open>truthy customerId\<close>
    and \<open>map_of kvs ''priceId'' = Some priceId\<close> \<open>truthy priceId\<close>
    and \<open>js_to_string customerId = Inr cid\<close>
    and \<open>fetch (stripe_get key (''customers/'' @ cid)) = Inr res\<close>
    and \<open>res_json res = Inr (JObj ckvs)\<close>
    and \<open>error_of fetch (stripe_get key (''customers/'' @ cid)) = None\<close>
  shows
   \<open>(truthy (default_payment_method_of (JObj ckvs)) \<longrightarrow>
       creates_subscription (create_subscription str_pos env fetch req)
         [stripe_get key (''customers/'' @ cid)]
         key customerId priceId (default_payment_method_of (JObj ckvs))) \<and>
    (\<not> truthy (default_payment_method_of (JObj ckvs)) \<and>
     fetch (stripe_get key (''payment_methods?customer='' @ cid @ ''&type=card'')) = Inr res' \<and>
     res_json res' = Inr pms \<and> is_listing pms \<longrightarrow>
       (truthy (first_listed_id pms) \<longrightarrow>
          creates_subscription (create_subscription str_pos env fetch req)
            [stripe_get key (''customers/'' @ cid),
             stripe_get key (''payment_methods?customer='' @ cid @ ''&type=card'')]
            key customerId priceId (first_listed_id pms)) \<and>
       (\<not> truthy (first_listed_id pms) \<longrightarrow>
          create_subscription str_pos env fetch req =
            (Inr \<lparr>status = 400, headers = CORS_HEADERS @ [(''Content-Type'', ''application/json'')],
                  body_text = Some ''{"error":"No payment method found for this customer. Please update your payment method first."}''\<rparr>,
             [stripe_get key (''customers/'' @ cid),
              stripe_get key (''payment_methods?customer='' @ cid @ ''&type=card'')])))\<close>
  (is "(?D \<longrightarrow> ?A) \<and> (?L \<longrightarrow> (?F \<longrightarrow> ?B) \<and> (\<not> ?F \<longrightarrow> ?C))")
proof -
  let ?dpm = "default_payment_method_of (JObj ckvs)"
  have run: "create_subscription str_pos env fetch req =
      io_catch (create_subscription_try str_pos fetch key customerId priceId) internal_server_error"
    using assms(1-8) by (simp add: create_subscription_def env_or_empty_def bind_eval)
  note ok = no_truthy_error [OF assms(12,10,11)]
  have A: ?A if ?D
  proof -
    have "create_subscription_try str_pos fetch key customerId priceId =
            (fst (subscribe fetch key customerId priceId ?dpm),
             [stripe_get key (''customers/'' @ cid)] @ snd (subscribe fetch key customerId priceId ?dpm))"
      unfolding try_subscribe
      using that ok assms(9-11)
      by (simp add: interpolating_def stripeGet_eq io_bind_Inr io_eval_def io_return_def
            default_payment_method_read)
    with subscribe_creates [of fetch key customerId priceId ?dpm "[stripe_get key (''customers/'' @ cid)]"]
    show ?thesis unfolding run by simp
  qed
  have BC: "(?F \<longrightarrow> ?B) \<and> (\<not> ?F \<longrightarrow> ?C)" if l: ?L
  proof -
    from l have nd: "\<not> truthy ?dpm" and listing: "is_listing pms"
      and f: "fetch (stripe_get key (''payment_methods?customer='' @ cid @ ''&type=card'')) = Inr res'"
      and j: "res_json res' = Inr pms"
      by simp_all
    from listing_read [OF listing nd, of str_pos] obtain pm where
      pm: "io_bind (io_eval (get_prop pms ''data'')) (\<lambda>data.
               io_bind (io_eval (opt_chain data ''length'')) (\<lambda>len.
               io_bind (io_eval (js_gt_zero str_pos len)) (\<lambda>positive.
               if positive then
                 io_bind (io_eval (get_index data 0)) (\<lambda>first.
                 io_eval (get_prop first ''id''))
               else io_return ?dpm))) = (Inr pm, [])"
      and t: "truthy pm \<longleftrightarrow> truthy (first_listed_id pms)"
      and e: "truthy pm \<longrightarrow> pm = first_listed_id pms"
      by blast
    have B: ?B if ?F
    proof -
      have "create_subscription_try str_pos fetch key customerId priceId =
              (fst (subscribe fetch key customerId priceId (first_listed_id pms)),
               [stripe_get key (''customers/'' @ cid),
                stripe_get key (''payment_methods?customer='' @ cid @ ''&type=card'')] @
               snd (subscribe fetch key customerId priceId (first_listed_id pms)))"
        unfolding try_subscribe
        using that ok assms(9-11) nd f j t e
        by (simp add: interpolating_def stripeGet_eq io_bind_Inr io_eval_def [of "Inr _"]
              io_return_def default_payment_method_read pm)
      with subscribe_creates [of fetch key customerId priceId "first_listed_id pms"
          "[stripe_get key (''customers/'' @ cid),
            stripe_get key (''payment_methods?customer='' @ cid @ ''&type=card'')]"]
      show ?thesis unfolding run by simp
    qed
    have C: ?C if "\<not> ?F"
      unfolding run try_subscribe no_payment_method_response [symmetric]
      using that ok assms(9-11) nd f j t
      by (simp add: interpolating_def stripeGet_eq io_bind_Inr io_eval_def [of "Inr _"]
            io_return_def default_payment_method_read pm io_catch_def)
    from B C show ?thesis by blast
  qed
  from A BC show ?thesis by blast
qed

theorem payment_method_resolution_witness:
  \<open>snd (create_subscription (\<lambda>s. False) (Some ''sk_test_1'') price_missing
       (post [(''customerId'', JStr ''cus_1''), (''priceId'', JStr ''price_1'')])) =
     [stripe_get ''sk_test_1'' ''customers/cus_1'',
      stripe_post ''sk_test_1'' ''subscriptions''
        ''customer=cus_1&items%5B0%5D%5Bprice%5D=price_1&default_payment_method=pm_1&payment_behavior=default_incomplete&expand%5B%5D=latest_invoice.payment_intent''] \<and>
   snd (create_subscription (\<lambda>s. False) (Some ''sk_test_1'') card_listed
       (post [(''customerId'', JStr ''cus_1''), (''priceId'', JStr ''price_1'')])) =
     [stripe_get ''sk_test_1'' ''customers/cus_1'',
      stripe_get ''sk_test_1'' ''payment_methods?customer=cus_1&type=card'',
      stripe_post ''sk_test_1'' ''subscriptions''
        ''customer=cus_1&items%5B0%5D%5Bprice%5D=price_1&default_payment_method=pm_2&payment_behavior=default_incomplete&expand%5B%5D=latest_invoice.payment_intent''] \<and>
   create_subscription (\<lambda>s. False) (Some ''sk_test_1'') no_cards
       (post [(''customerId'', JStr ''cus_1''), (''priceId'', JStr ''price_1'')]) =
     (Inr \<lparr>status = 400, headers = CORS_HEADERS @ [(''Content-Type'', ''application/json'')],
           body_text = Some ''{"error":"No payment method found for this customer. Please update your payment method first."}''\<rparr>,
      [stripe_get ''sk_test_1'' ''customers/cus_1'',
       stripe_get ''sk_test_1'' ''payment_methods?customer=cus_1&type=card'']) \<and>
   create_subscription (\<lambda>s. False) (Some ''sk_test_1'') price_missing
       (post [(''customerId'', JStr ''cus_1''), (''priceId'', JObj [(''toString'', JNull)])]) =
     (Inr \<lparr>status = 500, headers = CORS_HEADERS @ [(''Content-Type'', ''application/json'')],
           body_text = Some ''{"error":"Internal server error"}''\<rparr>,
      [stripe_get ''sk_test_1'' ''customers/cus_1''])\<close>
  (is "?A \<and> ?B \<and> ?C \<and> ?D")
proof -
  let ?kvs = "[(''customerId'', JStr ''cus_1''), (''priceId'', JStr ''price_1'')]"
  let ?bad = "[(''customerId'', JStr ''cus_1''), (''priceId'', JObj [(''toString'', JNull)])]"
  have A: ?A
    using payment_method_resolution [where str_pos = "\<lambda>s. False" and env = "Some ''sk_test_1''"
        and key = "''sk_test_1''" and fetch = price_missing and req = "post ?kvs" and kvs = ?kvs
        and customerId = "JStr ''cus_1''" and priceId = "JStr ''price_1''" and cid = "''cus_1''"
        and res = "\<lparr>ok = True, res_json = Inr (JObj [(''id'', JStr ''cus_1''),
                     (''invoice_settings'', JObj [(''default_payment_method'', JStr ''pm_1'')])])\<rparr>"
        and ckvs = "[(''id'', JStr ''cus_1''),
                     (''invoice_settings'', JObj [(''default_payment_method'', JStr ''pm_1'')])]",
        THEN conjunct1]
    by (simp add: post_def price_missing_def reply_def stripe_get_def error_of_def
          default_payment_method_of_def creates_subscription_def subscription_params_def form_defs)
  have B: ?B
    using payment_method_resolution [where str_pos = "\<lambda>s. False" and env = "Some ''sk_test_1''"
        and key = "''sk_test_1''" and fetch = card_listed and req = "post ?kvs" and kvs = ?kvs
        and customerId = "JStr ''cus_1''" and priceId = "JStr ''price_1''" and cid = "''cus_1''"
        and res = "\<lparr>ok = True, res_json = Inr (JObj [(''id'', JStr ''cus_1'')])\<rparr>"
        and ckvs = "[(''id'', JStr ''cus_1'')]"
        and res' = "\<lparr>ok = True, res_json = Inr (JObj [(''data'', JArr [JObj [(''id'', JStr ''pm_2''), (''type'', JStr ''card'')]])])\<rparr>"
        and pms = "JObj [(''data'', JArr [JObj [(''id'', JStr ''pm_2''), (''type'', JStr ''card'')]])]",
        THEN conjunct2]
    by (simp add: post_def card_listed_def reply_def stripe_get_def error_of_def
          default_payment_method_of_def first_listed_id_def is_listing_def
          creates_subscription_def subscription_params_def form_defs)
  have C: ?C
    using payment_method_resolution [where str_pos = "\<lambda>s. False" and env = "Some ''sk_test_1''"
        and key = "''sk_test_1''" and fetch = no_cards and req = "post ?kvs" and kvs = ?kvs
        and customerId = "JStr ''cus_1''" and priceId = "JStr ''price_1''" and cid = "''cus_1''"
        and res = "\<lparr>ok = True, res_json = Inr (JObj [(''id'', JStr ''cus_1'')])\<rparr>"
        and ckvs = "[(''id'', JStr ''cus_1'')]"
        and res' = "\<lparr>ok = True, res_json = Inr (JObj [(''data'', JArr [])])\<rparr>"
        and pms = "JObj [(''data'', JArr [])]",
        THEN conjunct2]
    by (simp add: post_def no_cards_def reply_def stripe_get_def error_of_def
          default_payment_method_of_def first_listed_id_def is_listing_def)
  have D: ?D
    using payment_method_resolution [where str_pos = "\<lambda>s. False" and env = "Some ''sk_test_1''"
        and key = "''sk_test_1''" and fetch = price_missing and req = "post ?bad" and kvs = ?bad
        and customerId = "JStr ''cus_1''" and priceId = "JObj [(''toString'', JNull)]"
        and cid = "''cus_1''"
        and res = "\<lparr>ok = True, res_json = Inr (JObj [(''id'', JStr ''cus_1''),
                     (''invoice_settings'', JObj [(''default_payment_method'', JStr ''pm_1'')])])\<rparr>"
        and ckvs = "[(''id'', JStr ''cus_1''),
                     (''invoice_settings'', JObj [(''default_payment_method'', JStr ''pm_1'')])]",
        THEN conjunct1]
    by (simp add: post_def price_missing_def reply_def stripe_get_def error_of_def
          default_payment_method_of_def creates_subscription_def subscription_params_def
          URLSearchParams_toString_def)
  from A B C D show ?thesis by (intro conjI)
qed

subsection \<open>The browser wrappers\<close>

text \<open>
  Claim C3, as amended. \<^verbatim>\<open>createSetupIntent\<close> throws when the JSON mapping the handler
  answers with has a truthy \<^verbatim>\<open>error\<close> field, the message of the exception being the
  string of that field (the exception is the \<^verbatim>\<open>TypeError\<close> of the conversion when the field
  has no string), and returns the mapping otherwise. \<^verbatim>\<open>sendEmail\<close> returns the parsed response
  whatever it holds, an \<^verbatim>\<open>error\<close> field included.
\<close>

theorem wrappers_surface_errors:
  \<open>(fetch (createSetupIntent_request email userId) = Inr res \<and> res_json res = Inr (JObj kvs) \<longrightarrow>
      (\<forall>err. map_of kvs ''error'' = Some err \<and> truthy err \<longrightarrow>
         fst (createSetupIntent fetch email userId) =
           Inl (case js_to_string err of Inr message \<Rightarrow> Error message | Inl e \<Rightarrow> e)) \<and>
      ((\<forall>err. map_of kvs ''error'' = Some err \<longrightarrow> \<not> truthy err) \<longrightarrow>
         fst (createSetupIntent fetch email userId) = Inr (JObj kvs))) \<and>
   (fetch (sendEmail_request type to data_arg) = Inr res' \<and> res_json res' = Inr v \<longrightarrow>
      fst (sendEmail fetch type to data_arg) = Inr v)\<close>
  by (auto simp: createSetupIntent_def sendEmail_def createSetupIntent_request_def
        sendEmail_request_def io_fetch_def io_eval_def io_return_def io_bind_Inr io_bind_Inl Let_def
        split: option.splits sum.splits)

text \<open>
  The claim as first stated fails: \<^verbatim>\<open>sendEmail\<close> hands back the 400 envelope of an
  unknown type as a value, and \<^verbatim>\<open>createSetupIntent\<close> hands back a mapping whose \<^verbatim>\<open>error\<close>
  field is the empty string.
\<close>

theorem wrappers_surface_errors_counterexample:
  \<open>fst (sendEmail (\<lambda>c. envelope (JStr ''Unknown email type: receipt''))
          (JStr ''receipt'') (JStr ''a@b.com'') JUndefined) =
     Inr (JObj [(''error'', JStr ''Unknown email type: receipt'')]) \<and>
   fst (createSetupIntent (\<lambda>c. envelope (JStr [])) (JStr ''a@b.com'') (JStr ''u1'')) =
     Inr (JObj [(''error'', JStr [])])\<close>
  by (simp add: sendEmail_def createSetupIntent_def envelope_def io_fetch_def io_eval_def
        io_return_def io_bind_Inr Let_def)

theorem wrappers_surface_errors_witness:
  \<open>fst (createSetupIntent (\<lambda>c. envelope (JStr ''email and userId are required'')) (JStr []) (JStr ''u1'')) =
     Inl (Error ''email and userId are required'') \<and>
   fst (createSetupIntent (\<lambda>c. reply (JObj [(''clientSecret'', JStr ''seti_1_secret_x''), (''customerId'', JStr ''cus_1'')]))
          (JStr ''a@b.com'') (JStr ''u1'')) =
     Inr (JObj [(''clientSecret'', JStr ''seti_1_secret_x''), (''customerId'', JStr ''cus_1'')]) \<and>
   fst (sendEmail (\<lambda>c. reply (JObj [(''id'', JStr ''msg_1'')])) (JStr ''welcome'') (JStr ''a@b.com'')
          (JObj [(''name'', JStr ''Pat'')])) =
     Inr (JObj [(''id'', JStr ''msg_1'')])\<close>
  (is "?A \<and> ?B \<and> ?C")
proof -
  have A: ?A
    using wrappers_surface_errors [where fetch = "\<lambda>c. envelope (JStr ''email and userId are required'')"
        and email = "JStr []" and userId = "JStr ''u1''"
        and res = "\<lparr>ok = False, res_json = Inr (JObj [(''error'', JStr ''email and userId are required'')])\<rparr>"
        and kvs = "[(''error'', JStr ''email and userId are required'')]", THEN conjunct1]
    by (simp add: envelope_def)
  have B: ?B
    using wrappers_surface_errors [where
        fetch = "\<lambda>c. reply (JObj [(''clientSecret'', JStr ''seti_1_secret_x''), (''customerId'', JStr ''cus_1'')])"
        and email = "JStr ''a@b.com''" and userId = "JStr ''u1''"
        and res = "\<lparr>ok = True, res_json = Inr (JObj [(''clientSecret'', JStr ''seti_1_secret_x''), (''customerId'', JStr ''cus_1'')])\<rparr>"
        and kvs = "[(''clientSecret'', JStr ''seti_1_secret_x''), (''customerId'', JStr ''cus_1'')]", THEN conjunct1]
    by (simp add: reply_def)
  have C: ?C
    using wrappers_surface_errors [where fetch = "\<lambda>c. reply (JObj [(''id'', JStr ''msg_1'')])"
        and type = "JStr ''welcome''" and to = "JStr ''a@b.com''" and data_arg = "JObj [(''name'', JStr ''Pat'')]"
        and res' = "\<lparr>ok = True, res_json = Inr (JObj [(''id'', JStr ''msg_1'')])\<rparr>"
        and v = "JObj [(''id'', JStr ''msg_1'')]", THEN conjunct2]
    by (simp add: reply_def)
  from A B C show ?thesis by (intro conjI)
qed

subsection \<open>The profile row\<close>

lemma map_of_obj_set: "map_of (obj_set kvs k v) k' = (if k' = k then Some v else map_of kvs k')"
proof (cases "k \<in> fst ` set kvs")
  case True
  have "map_of (map (\<lambda>(k', v'). if k' = k then (k', v) else (k', v')) kvs) k' =
          (if k' = k then (if k \<in> fst ` set kvs then Some v else None) else map_of kvs k')"
    by (induction kvs) (auto split: if_splits)
  with True show ?thesis by (simp add: obj_set_def)
next
  case False
  then have "map_of kvs k = None" by (simp add: map_of_eq_None_iff)
  with False show ?thesis by (auto simp: obj_set_def map_add_def split: option.splits)
qed

lemma map_of_fold_obj_set:
  "k \<notin> fst ` set props \<Longrightarrow>
   map_of (fold (\<lambda>(k, x) acc. obj_set acc k x) props target) k = map_of target k"
  by (induction props arbitrary: target) (auto simp: map_of_obj_set)

text \<open>
  Claim C8, as amended. \<^verbatim>\<open>upsertProfile\<close> asks the datastore for an upsert into
  \<^verbatim>\<open>profiles\<close> of a row whose \<^verbatim>\<open>updated_at\<close> is the timestamp the facade reads from the
  browser's clock, whatever \<^verbatim>\<open>updated_at\<close> the caller put into the fields, and whose \<^verbatim>\<open>id\<close>
  is the user identifier when the fields carry no \<^verbatim>\<open>id\<close> of their own.
\<close>

theorem upsert_row:
  \<open>\<exists>r. upsertProfile sb now_iso userId fields_arg = sb (Upsert ''profiles'' r) \<and>
        map_of r ''updated_at'' = Some (JStr now_iso) \<and>
        (''id'' \<notin> fst ` set (own_props fields_arg) \<longrightarrow> map_of r ''id'' = Some userId)\<close>
  by (rule exI [of _ "obj_set (spread (obj_set [] ''id'' userId) fields_arg) ''updated_at'' (JStr now_iso)"])
     (simp add: upsertProfile_def map_of_obj_set spread_def map_of_fold_obj_set)

text \<open>
  The claim as first stated fails: the timestamp is part of the row the browser sends,
  and it is the browser's clock that chooses it. A browser whose clock stands at 2001
  writes 2001.
\<close>

theorem upsert_row_counterexample:
  \<open>upsertProfile (\<lambda>c. c) ''2001-01-01T00:00:00.000Z'' (JStr ''u1'') (JObj [(''display_name'', JStr ''Pat'')]) =
     Upsert ''profiles'' [(''id'', JStr ''u1''), (''display_name'', JStr ''Pat''),
                          (''updated_at'', JStr ''2001-01-01T00:00:00.000Z'')] \<and>
   upsertProfile (\<lambda>c. c) ''2001-01-01T00:00:00.000Z'' (JStr ''u1'') (JObj [(''display_name'', JStr ''Pat'')]) \<noteq>
   upsertProfile (\<lambda>c. c) ''2026-11-03T09:30:00.000Z'' (JStr ''u1'') (JObj [(''display_name'', JStr ''Pat'')])\<close>
  by (simp add: upsertProfile_def spread_def obj_set_def)

theorem upsert_row_witness:
  \<open>\<exists>r. upsertProfile (\<lambda>c. c) ''2026-11-03T09:30:00.000Z'' (JStr ''u1'')
          (JObj [(''display_name'', JStr ''Pat''), (''updated_at'', JStr ''1999-12-31T23:59:59.000Z'')]) =
          Upsert ''profiles'' r \<and>
        map_of r ''updated_at'' = Some (JStr ''2026-11-03T09:30:00.000Z'') \<and>
        map_of r ''id'' = Some (JStr ''u1'')\<close>
  using upsert_row [of "\<lambda>c. c" "''2026-11-03T09:30:00.000Z''" "JStr ''u1''"
          "JObj [(''display_name'', JStr ''Pat''), (''updated_at'', JStr ''1999-12-31T23:59:59.000Z'')]"]
  by simp

end
